theory Spec2Isabelle
  imports Main "HOL-Library.Multiset" "HOL-Library.List_Lexorder" "HOL-Library.Char_ord"
begin

section \<open>The .NET SDK updater: release resolution and update orchestration\<close>

text \<open>
  A shallow embedding of \<^verbatim>\<open>src/DotNetSdkUpdater.ts\<close> and of the part of
  \<^verbatim>\<open>src/main.ts\<close> that reports the outputs of a run.

  Conventions of the embedding:
  \<^item> a JavaScript string is a \<open>string\<close>; version numbers, advisory identifiers and
    branch names are ASCII text;
  \<^item> a JavaScript number obtained by \<^verbatim>\<open>parseInt\<close> is an \<open>int option\<close>, where
    \<open>None\<close> is \<^verbatim>\<open>NaN\<close>. The numbers of the source are doubles, which are exact
    for the integers up to \<open>2^53\<close> in absolute value (\<open>safeInteger\<close> below), and the
    embedding is that of the source for version numbers within this bound; the
    statement about \<open>generateCommitMessage\<close> assumes the bound, and the statements about
    \<open>getLatestRelease\<close> are about a result that it has returned;
  \<^item> a property that is only tested for truthiness is an \<open>option\<close>, where \<open>None\<close> is
    \<^verbatim>\<open>undefined\<close> or \<^verbatim>\<open>null\<close>; a property that the source compares with \<^verbatim>\<open>null\<close>
    is a \<open>property\<close>, which keeps the two apart;
  \<^item> a thrown exception is the \<open>Inl\<close> of a sum type.
\<close>

subsection \<open>Data model\<close>

datatype error = Error string | TypeError string

record Cve =
  cve_id :: string
  cve_url :: string

record CveInfo =
  issue_id :: string
  issue_url :: string

record Runtime =
  runtime_version :: string

record Sdk =
  sdk_version :: string

text \<open>
  A property of an object of the feed: the key is absent (the property reads as
  \<^verbatim>\<open>undefined\<close>), or it holds \<^verbatim>\<open>null\<close>, or it holds a value.
\<close>

datatype 'a property = Missing | Null | Present 'a

text \<open>
  The fields of a release that the updater reads. \<open>cve_list\<close> is tested for
  truthiness only. \<open>sdks\<close> is compared with \<^verbatim>\<open>null\<close> and then iterated, so an absent
  key and \<^verbatim>\<open>null\<close> behave differently.
\<close>

record Release =
  security :: bool
  cve_list :: "Cve list option"
  release_notes :: string
  runtime :: Runtime
  sdk :: Sdk
  sdks :: "Sdk list property"

record ReleaseChannel =
  latest_sdk :: string
  releases :: "Release list"

record ReleaseInfo =
  releaseNotes :: string
  runtimeVersion :: string
  sdkVersion :: string
  info_security :: bool
  info_securityIssues :: "CveInfo list"

record SdkVersions =
  current :: ReleaseInfo
  latest :: ReleaseInfo
  agg_security :: bool
  agg_securityIssues :: "CveInfo list"

subsection \<open>Strings and numbers of the platform\<close>

text \<open>\<^verbatim>\<open>s.split(sep)\<close> for a one-character separator: never the empty list.\<close>

fun split :: "char \<Rightarrow> string \<Rightarrow> string list" where
  "split sep [] = [[]]"
| "split sep (c # cs) =
     (if c = sep then [] # split sep cs
      else (case split sep cs of [] \<Rightarrow> [[c]] | p # ps \<Rightarrow> (c # p) # ps))"

text \<open>\<^verbatim>\<open>parts[i]\<close>: \<^verbatim>\<open>undefined\<close> out of range.\<close>

definition at :: "'a list \<Rightarrow> nat \<Rightarrow> 'a option" where
  "at xs i = (if i < length xs then Some (xs ! i) else None)"

definition isWhiteSpace :: "char \<Rightarrow> bool" where
  "isWhiteSpace c = ((of_char c :: nat) \<in> {9, 10, 11, 12, 13, 32})"

definition isDigit :: "char \<Rightarrow> bool" where
  "isDigit c = (48 \<le> (of_char c :: nat) \<and> (of_char c :: nat) \<le> 57)"

definition digitValue :: "char \<Rightarrow> nat" where
  "digitValue c = of_char c - 48"

definition digitsValue :: "string \<Rightarrow> nat" where
  "digitsValue ds = foldl (\<lambda>acc c. 10 * acc + digitValue c) 0 ds"

text \<open>
  \<^verbatim>\<open>parseInt(s, 10)\<close>: leading white space, an optional sign, then the longest
  prefix of decimal digits; \<^verbatim>\<open>NaN\<close> when there is no digit.
\<close>

definition parseInt :: "string \<Rightarrow> int option" where
  "parseInt s =
     (let t = dropWhile isWhiteSpace s;
          neg = (t \<noteq> [] \<and> hd t = CHR ''-'');
          r = (if t \<noteq> [] \<and> (hd t = CHR ''-'' \<or> hd t = CHR ''+'') then tl t else t);
          ds = takeWhile isDigit r
      in if ds = [] then None
         else Some (if neg then - int (digitsValue ds) else int (digitsValue ds)))"

text \<open>
  The integers that a double holds exactly, together with all the integers between them:
  on these \<open>parseInt\<close> above, and the comparison and the arithmetic of integers, are
  those of the source.
\<close>

definition safeInteger :: "int \<Rightarrow> bool" where
  "safeInteger i = (\<bar>i\<bar> \<le> 2 ^ 53)"

text \<open>\<^verbatim>\<open>parseInt(parts[i], 10)\<close>: \<^verbatim>\<open>undefined\<close> is read as the text "undefined".\<close>

definition parseIntAt :: "string list \<Rightarrow> nat \<Rightarrow> int option" where
  "parseIntAt parts i = (case at parts i of None \<Rightarrow> None | Some s \<Rightarrow> parseInt s)"

fun showNat :: "nat \<Rightarrow> string" where
  "showNat n =
     (if n < 10 then [char_of (48 + n)]
      else showNat (n div 10) @ [char_of (48 + n mod 10)])"

declare showNat.simps [simp del]

text \<open>A number inside a template literal.\<close>

definition numberToString :: "int option \<Rightarrow> string" where
  "numberToString x =
     (case x of None \<Rightarrow> ''NaN''
      | Some i \<Rightarrow> if i < 0 then CHR ''-'' # showNat (nat (- i)) else showNat (nat i))"

text \<open>\<^verbatim>\<open>a > b\<close> on numbers: false as soon as one side is \<^verbatim>\<open>NaN\<close>.\<close>

definition numGreater :: "int option \<Rightarrow> int option \<Rightarrow> bool" where
  "numGreater a b = (case (a, b) of (Some x, Some y) \<Rightarrow> x > y | _ \<Rightarrow> False)"

definition toLowerCase :: "string \<Rightarrow> string" where
  "toLowerCase s =
     map (\<lambda>c. if 65 \<le> (of_char c :: nat) \<and> (of_char c :: nat) \<le> 90
               then char_of ((of_char c :: nat) + 32) else c) s"

definition trimEnd :: "string \<Rightarrow> string" where
  "trimEnd s = rev (dropWhile isWhiteSpace (rev s))"

definition joinWith :: "string \<Rightarrow> string list \<Rightarrow> string" where
  "joinWith sep xs = (case xs of [] \<Rightarrow> [] | y # ys \<Rightarrow> y @ concat (map (\<lambda>z. sep @ z) ys))"

subsection \<open>The Version Matcher: \<^verbatim>\<open>getReleaseForSdk\<close>\<close>

definition mapCves :: "Cve list \<Rightarrow> CveInfo list" where
  "mapCves cves = map (\<lambda>issue. \<lparr>issue_id = cve_id issue, issue_url = cve_url issue\<rparr>) cves"

definition notIterable :: error where
  "notIterable = TypeError ''info.sdks is not iterable''"

text \<open>
  The callback of the second \<^verbatim>\<open>filter\<close> on one release: when \<^verbatim>\<open>info.sdks\<close> is not
  \<^verbatim>\<open>null\<close>, the loop \<^verbatim>\<open>for (const sdk of info.sdks)\<close> looks for the first alternate
  with the version. The loop throws when the key is absent, since \<^verbatim>\<open>undefined\<close> is not
  \<^verbatim>\<open>null\<close> and cannot be iterated.
\<close>

definition matchingAlternate :: "string \<Rightarrow> Release \<Rightarrow> error + Sdk option" where
  "matchingAlternate sdkVer info =
     (case sdks info of
        Null \<Rightarrow> Inr None
      | Missing \<Rightarrow> Inl notIterable
      | Present ss \<Rightarrow> Inr (find (\<lambda>s. sdk_version s = sdkVer) ss))"

text \<open>
  The second \<^verbatim>\<open>filter\<close>, whose callback assigns \<^verbatim>\<open>foundSdk\<close>: it visits every
  release, so \<^verbatim>\<open>foundSdk\<close> ends as the alternate of the last release that has one,
  and an exception of the callback at any release ends the whole call.
\<close>

fun scanAlternates ::
  "string \<Rightarrow> Release list \<Rightarrow> Sdk option \<Rightarrow> error + Release list \<times> Sdk option" where
  "scanAlternates sdkVer [] foundSdk = Inr ([], foundSdk)"
| "scanAlternates sdkVer (info # rest) foundSdk =
     (case matchingAlternate sdkVer info of
        Inl e \<Rightarrow> Inl e
      | Inr None \<Rightarrow> scanAlternates sdkVer rest foundSdk
      | Inr (Some s) \<Rightarrow>
          (case scanAlternates sdkVer rest (Some s) of
             Inl e \<Rightarrow> Inl e
           | Inr (kept, found) \<Rightarrow> Inr (info # kept, found)))"

definition notFound :: "string \<Rightarrow> error" where
  "notFound sdkVer = Error (''Failed to find release for .NET SDK version '' @ sdkVer)"

definition releaseInfoOf :: "Release \<Rightarrow> Sdk \<Rightarrow> ReleaseInfo" where
  "releaseInfoOf release foundSdk =
     \<lparr>releaseNotes = release_notes release,
      runtimeVersion = runtime_version (runtime release),
      sdkVersion = sdk_version foundSdk,
      info_security = security release,
      info_securityIssues =
        (if security release
         then (case cve_list release of None \<Rightarrow> [] | Some issues \<Rightarrow> mapCves issues)
         else [])\<rparr>"

definition getReleaseForSdk :: "string \<Rightarrow> ReleaseChannel \<Rightarrow> error + ReleaseInfo" where
  "getReleaseForSdk sdkVer channel =
     (let primary = filter (\<lambda>info. sdk_version (sdk info) = sdkVer) (releases channel);
          scanned =
            (if length primary = 1 then Inr (primary, Some (sdk (hd primary)))
             else if length primary < 1 then scanAlternates sdkVer (releases channel) None
             else Inr (primary, None))
      in case scanned of
           Inl e \<Rightarrow> Inl e
         | Inr (releasesForSdk, foundSdk) \<Rightarrow>
             (case (releasesForSdk, foundSdk) of
                (release # _, Some found) \<Rightarrow> Inr (releaseInfoOf release found)
              | _ \<Rightarrow> Inl (notFound sdkVer)))"

subsection \<open>The Release Delta Resolver: \<^verbatim>\<open>getLatestRelease\<close>\<close>

definition versionString :: "int option \<Rightarrow> int option \<Rightarrow> int \<Rightarrow> string" where
  "versionString versionMajor versionMinor patch =
     numberToString versionMajor @ ''.'' @ numberToString versionMinor @ ''.''
       @ numberToString (Some patch)"

definition findByRuntime :: "Release list \<Rightarrow> string \<Rightarrow> Release option" where
  "findByRuntime rels version = find (\<lambda>p. runtime_version (runtime p) = version) rels"

text \<open>
  The aggregate while the loop runs: the security flag, the advisory list, and whether
  \<^verbatim>\<open>concat\<close> has replaced the list by a new array. Until it has, the aggregate
  list is the very array of \<^verbatim>\<open>latest.securityIssues\<close>.
\<close>

type_synonym aggregate = "bool \<times> CveInfo list \<times> bool"

definition scanStep :: "Release list \<Rightarrow> string \<Rightarrow> aggregate \<Rightarrow> aggregate" where
  "scanStep rels version agg =
     (case findByRuntime rels version of
        None \<Rightarrow> agg
      | Some release \<Rightarrow>
          (case agg of (sec, issues, fresh) \<Rightarrow>
             (case cve_list release of
                None \<Rightarrow> (sec \<or> security release, issues, fresh)
              | Some cves \<Rightarrow> (sec \<or> security release, issues @ mapCves cves, True))))"

text \<open>\<^verbatim>\<open>for (let patch = currentPatch; patch < latestPatch; patch++)\<close>\<close>

function gapScan ::
  "Release list \<Rightarrow> int option \<Rightarrow> int option \<Rightarrow> int \<Rightarrow> int \<Rightarrow> aggregate \<Rightarrow> aggregate" where
  "gapScan rels versionMajor versionMinor patch latestPatch agg =
     (if patch < latestPatch
      then gapScan rels versionMajor versionMinor (patch + 1) latestPatch
             (scanStep rels (versionString versionMajor versionMinor patch) agg)
      else agg)"
  by pat_completeness auto
termination
  by (relation "measure (\<lambda>(rels, vmaj, vmin, patch, latestPatch, agg). nat (latestPatch - patch))") auto

declare gapScan.simps [simp del]

text \<open>
  The final \<^verbatim>\<open>sort\<close> and the returned object. The comparison of the source is
  \<^verbatim>\<open>a.id.localeCompare(b.id)\<close>, the collation of the platform: it is the parameter
  \<open>collationKey\<close>, which maps an identifier to its place in the collation order.
  The sort is stable and in place, so it also reorders \<^verbatim>\<open>latest.securityIssues\<close>
  when the aggregate list is still that array.
\<close>

definition sortIssues :: "(string \<Rightarrow> 'k::linorder) \<Rightarrow> CveInfo list \<Rightarrow> CveInfo list" where
  "sortIssues collationKey issues = sort_key (\<lambda>a. collationKey (issue_id a)) issues"

definition sortedResult ::
  "(string \<Rightarrow> 'k::linorder) \<Rightarrow> ReleaseInfo \<Rightarrow> ReleaseInfo \<Rightarrow> aggregate \<Rightarrow> SdkVersions" where
  "sortedResult collationKey cur lat agg =
     (case agg of (sec, issues, fresh) \<Rightarrow>
        \<lparr>current = cur,
         latest = (if fresh then lat
                   else lat\<lparr>info_securityIssues := sortIssues collationKey issues\<rparr>),
         agg_security = sec,
         agg_securityIssues = sortIssues collationKey issues\<rparr>)"

definition includesUndefined :: error where
  "includesUndefined =
     TypeError (''Cannot read properties of undefined (reading '' @ [CHR 0x27] @ ''includes''
                @ [CHR 0x27] @ '')'')"

definition hasDash :: "string \<Rightarrow> bool" where
  "hasDash part = (CHR ''-'' \<in> set part)"

definition getLatestRelease ::
  "(string \<Rightarrow> 'k::linorder) \<Rightarrow> string \<Rightarrow> ReleaseChannel \<Rightarrow> error + SdkVersions" where
  "getLatestRelease collationKey currentSdkVersion channel =
     (case getReleaseForSdk currentSdkVersion channel of
        Inl e \<Rightarrow> Inl e
      | Inr cur \<Rightarrow>
     (case getReleaseForSdk (latest_sdk channel) channel of
        Inl e \<Rightarrow> Inl e
      | Inr lat \<Rightarrow>
     (let seed = (info_security lat, info_securityIssues lat, False);
          currentParts = split CHR ''.'' (runtimeVersion cur);
          latestParts = split CHR ''.'' (runtimeVersion lat);
          versionMajor = parseIntAt currentParts 0;
          versionMinor = parseIntAt currentParts 1
      in case at currentParts 2 of
           None \<Rightarrow> Inl includesUndefined
         | Some currentPart \<Rightarrow>
             if hasDash currentPart then Inr (sortedResult collationKey cur lat seed)
             else
               (case at latestParts 2 of
                  None \<Rightarrow> Inl includesUndefined
                | Some latestPart \<Rightarrow>
                    if hasDash latestPart then Inr (sortedResult collationKey cur lat seed)
                    else
                      (case (parseInt currentPart, parseInt latestPart) of
                         (Some currentPatch, Some latestPatch) \<Rightarrow>
                           if latestPatch - currentPatch > 1
                           then Inr (sortedResult collationKey cur lat
                                  (gapScan (releases channel) versionMajor versionMinor
                                     currentPatch latestPatch seed))
                           else Inr (sortedResult collationKey cur lat seed)
                       | _ \<Rightarrow> Inr (sortedResult collationKey cur lat seed))))))"

subsection \<open>The Update Classifier: \<^verbatim>\<open>generateCommitMessage\<close>\<close>

definition updateKind :: "string \<Rightarrow> string \<Rightarrow> string" where
  "updateKind currentSdkVersion latestSdkVersion =
     (let currentVersion = split CHR ''.'' currentSdkVersion;
          latestVersion = split CHR ''.'' latestSdkVersion
      in if numGreater (parseIntAt latestVersion 0) (parseIntAt currentVersion 0) then ''major''
         else if numGreater (parseIntAt latestVersion 1) (parseIntAt currentVersion 1)
         then ''minor''
         else ''patch'')"

definition newline :: string where
  "newline = [CHR 0x0A]"

definition generateCommitMessage :: "string \<Rightarrow> string \<Rightarrow> string" where
  "generateCommitMessage currentSdkVersion latestSdkVersion =
     joinWith newline
       [''Update .NET SDK'',
        [],
        ''Update .NET SDK to version '' @ latestSdkVersion @ ''.'',
        [],
        ''---'',
        ''updated-dependencies:'',
        ''- dependency-name: Microsoft.NET.Sdk'',
        ''  dependency-type: direct:production'',
        ''  update-type: version-update:semver-'' @ updateKind currentSdkVersion latestSdkVersion,
        ''...'',
        [],
        []]"

subsection \<open>Run configuration, results and the outside world\<close>

text \<open>
  The options that the updater reads (\<^verbatim>\<open>main.ts\<close> builds them from the inputs of
  the action). \<open>repo\<close> comes from the environment and may be \<^verbatim>\<open>undefined\<close>.
\<close>

record UpdateOptions =
  accessToken :: string
  apiUrl :: string
  branch :: string
  channel :: string
  commitMessage :: string
  dryRun :: bool
  globalJsonPath :: string
  labels :: string
  repo :: "string option"
  runId :: string
  serverUrl :: string
  userEmail :: string
  userName :: string

text \<open>
  The properties of the result that \<^verbatim>\<open>main.ts\<close> reads. A property that the object
  literal of \<^verbatim>\<open>tryUpdateSdk\<close> does not have and that is never assigned reads as
  \<^verbatim>\<open>undefined\<close>, which is \<open>None\<close>.
\<close>

record UpdateResult =
  branchName :: "string option"
  pullRequestNumber :: nat
  pullRequestUrl :: string
  updated :: bool
  result_security :: bool
  version :: string

record SdkSection =
  json_version :: "string option"

record GlobalJson =
  json_sdk :: "SdkSection option"

record PullRequest =
  pr_number :: nat
  pr_url :: string

record PullsCreateRequest =
  owner :: string
  repo_name :: "string option"
  title :: string
  head :: string
  base :: string
  body :: string
  maintainer_can_modify :: bool
  draft :: bool

text \<open>
  What \<^verbatim>\<open>exec.exec\<close> does with a git command: the promise is rejected (the process
  cannot be started, or it exits with a code other than 0 and the return code is not
  ignored), or it resolves after the listeners have received the two streams.
\<close>

datatype execOutcome = ExecRejected string | ExecResolved string string

text \<open>The effects of a run on the outside world, in the order in which they happen.\<close>

datatype event =
    ReadFile string
  | HttpGet string
  | WriteFile string GlobalJson
  | Git "string list" bool execOutcome
  | PullsCreate PullsCreateRequest
  | AddLabels nat "string list"

text \<open>
  The collaborators. The outcome of a git command may depend on everything that has
  happened before it; the other collaborators are called at most once in a run.
\<close>

record env =
  readJson :: "string \<Rightarrow> error + GlobalJson"
  writeFile :: "string \<Rightarrow> GlobalJson \<Rightarrow> error option"
  getJson :: "string \<Rightarrow> error + nat \<times> ReleaseChannel option"
  execProcess :: "event list \<Rightarrow> string list \<Rightarrow> bool \<Rightarrow> execOutcome"
  pullsCreate :: "PullsCreateRequest \<Rightarrow> error + PullRequest"

text \<open>The updater object: its options, which a run assigns to, and the effects so far.\<close>

record updater =
  options :: UpdateOptions
  trace :: "event list"

type_synonym 'a action = "updater \<Rightarrow> (error + 'a) \<times> updater"

definition andThen :: "'a action \<Rightarrow> ('a \<Rightarrow> 'b action) \<Rightarrow> 'b action" where
  "andThen m f u = (case m u of (Inl e, u') \<Rightarrow> (Inl e, u') | (Inr a, u') \<Rightarrow> f a u')"

definition return :: "'a \<Rightarrow> 'a action" where
  "return a u = (Inr a, u)"

definition throw :: "error \<Rightarrow> 'a action" where
  "throw e u = (Inl e, u)"

definition emit :: "event \<Rightarrow> updater \<Rightarrow> updater" where
  "emit ev u = u\<lparr>trace := trace u @ [ev]\<rparr>"

definition quote :: string where
  "quote = [CHR 0x27]"

subsection \<open>\<^verbatim>\<open>generatePullRequestBody\<close>\<close>

definition generatePullRequestBody :: "SdkVersions \<Rightarrow> UpdateOptions \<Rightarrow> string" where
  "generatePullRequestBody update opts =
     ''Updates the .NET SDK to version `'' @ sdkVersion (latest update) @ ''`, ''
     @ (if runtimeVersion (latest update) = runtimeVersion (current update)
        then ''which includes version [``'' @ runtimeVersion (latest update) @ ''``](''
             @ releaseNotes (latest update) @ '') of the .NET runtime.''
        else ''which also updates the .NET runtime from version [``''
             @ runtimeVersion (current update) @ ''``]('' @ releaseNotes (current update)
             @ '') to version [``'' @ runtimeVersion (latest update) @ ''``](''
             @ releaseNotes (latest update) @ '').'')
     @ (if agg_security update \<and> length (agg_securityIssues update) > 0
        then newline @ newline
             @ ''This release includes fixes for the following security issue(s):''
             @ concat (map (\<lambda>issue. newline @ ''  * ['' @ issue_id issue @ '']('' @ issue_url issue
                                      @ '')'')
                 (agg_securityIssues update))
        else [])
     @ newline @ newline
     @ ''This pull request was auto-generated by [GitHub Actions]('' @ serverUrl opts @ ''/''
     @ (case repo opts of None \<Rightarrow> ''undefined'' | Some r \<Rightarrow> r)
     @ ''/actions/runs/'' @ runId opts @ '').''"

subsection \<open>\<^verbatim>\<open>execGit\<close>, \<^verbatim>\<open>getDotNetReleaseChannel\<close>, \<^verbatim>\<open>createPullRequest\<close>\<close>

definition execGit :: "env \<Rightarrow> string list \<Rightarrow> bool \<Rightarrow> string action" where
  "execGit e args ignoreErrors u =
     (let outcome = execProcess e (trace u) args ignoreErrors;
          u' = emit (Git args ignoreErrors outcome) u
      in case outcome of
           ExecRejected err \<Rightarrow>
             (Inl (Error (''The command '' @ quote @ ''git '' @ joinWith '' '' args @ quote
                          @ '' failed: '' @ err)), u')
         | ExecResolved commandOutput commandError \<Rightarrow>
             if commandError \<noteq> [] \<and> \<not> ignoreErrors then (Inl (Error commandError), u')
             else (Inr (trimEnd commandOutput), u'))"

definition getDotNetReleaseChannel :: "env \<Rightarrow> string \<Rightarrow> ReleaseChannel action" where
  "getDotNetReleaseChannel e chan u =
     (let releasesUrl = ''https://raw.githubusercontent.com/dotnet/core/main/release-notes/''
                        @ chan @ ''/releases.json'';
          u' = emit (HttpGet releasesUrl) u
      in case getJson e releasesUrl of
           Inl err \<Rightarrow> (Inl err, u')
         | Inr (statusCode, result) \<Rightarrow>
             if statusCode \<ge> 400
             then (Inl (Error (''Failed to get releases JSON for channel '' @ chan
                               @ '' - HTTP status '' @ showNat statusCode)), u')
             else (case result of
                     None \<Rightarrow>
                       (Inl (Error (''Failed to get releases JSON for channel '' @ chan @ ''.'')), u')
                   | Some r \<Rightarrow> (Inr r, u')))"

text \<open>
  \<^verbatim>\<open>github.getOctokit(token, options)\<close> of the library: the options of the source hold
  no \<^verbatim>\<open>auth\<close>, so the call throws exactly when the token is empty.
\<close>

definition getOctokit :: "string \<Rightarrow> error option" where
  "getOctokit token =
     (if token = [] then Some (Error ''Parameter token or opts.auth is required'') else None)"

text \<open>
  The client is made before the dry-run flag is read. A failure of \<^verbatim>\<open>addLabels\<close> is
  caught and logged, so the call is an effect without a result.
\<close>

definition createPullRequest :: "env \<Rightarrow> string \<Rightarrow> SdkVersions \<Rightarrow> PullRequest action" where
  "createPullRequest e baseBranch update u =
     (let parts = split CHR ''/'' (case repo (options u) of None \<Rightarrow> ''/'' | Some r \<Rightarrow> r);
          request =
            \<lparr>owner = hd parts,
             repo_name = at parts 1,
             title = ''Update .NET SDK to '' @ sdkVersion (latest update),
             head = branch (options u),
             base = baseBranch,
             body = generatePullRequestBody update (options u),
             maintainer_can_modify = True,
             draft = False\<rparr>
      in case getOctokit (accessToken (options u)) of
           Some err \<Rightarrow> (Inl err, u)
         | None \<Rightarrow>
         if dryRun (options u) then (Inr \<lparr>pr_number = 0, pr_url = []\<rparr>, u)
         else
           (let u1 = emit (PullsCreate request) u
            in case pullsCreate e request of
                 Inl err \<Rightarrow> (Inl err, u1)
               | Inr result \<Rightarrow>
                   if labels (options u) \<noteq> []
                   then (Inr result,
                         emit (AddLabels (pr_number result) (split CHR '','' (labels (options u)))) u1)
                   else (Inr result, u1)))"

subsection \<open>\<^verbatim>\<open>applySdkUpdate\<close>\<close>

text \<open>Lines 360 to 365: the assignment to the manifest and the write to the file.\<close>

definition writeGlobalJson :: "env \<Rightarrow> GlobalJson \<Rightarrow> string \<Rightarrow> unit action" where
  "writeGlobalJson e globalJson latestVersion u =
     (case json_sdk globalJson of
        None \<Rightarrow>
          (Inl (TypeError (''Cannot set properties of undefined (setting '' @ quote @ ''version''
                           @ quote @ '')'')), u)
      | Some s \<Rightarrow>
          (let written = globalJson\<lparr>json_sdk := Some (s\<lparr>json_version := Some latestVersion\<rparr>)\<rparr>;
               u' = emit (WriteFile (globalJsonPath (options u)) written) u
           in case writeFile e (globalJsonPath (options u)) written of
                Some err \<Rightarrow> (Inl err, u')
              | None \<Rightarrow> (Inr (), u')))"

text \<open>Lines 368 to 374: the branch name and the commit message, when not configured.\<close>

definition configureDefaults :: "SdkVersions \<Rightarrow> updater \<Rightarrow> updater" where
  "configureDefaults versions u =
     (let o1 = (if branch (options u) = []
                then (options u)\<lparr>branch :=
                       toLowerCase (''update-dotnet-sdk-'' @ sdkVersion (latest versions))\<rparr>
                else options u);
          o2 = (if commitMessage o1 = []
                then o1\<lparr>commitMessage :=
                       generateCommitMessage (sdkVersion (current versions))
                         (sdkVersion (latest versions))\<rparr>
                else o1)
      in u\<lparr>options := o2\<rparr>)"

text \<open>Lines 376 to 389: the identity of the committer and the remote.\<close>

definition configureGit :: "env \<Rightarrow> unit action" where
  "configureGit e =
     andThen (\<lambda>u. if userName (options u) \<noteq> []
                   then execGit e [''config'', ''user.name'', userName (options u)] False u
                   else return [] u) (\<lambda>_.
     andThen (\<lambda>u. if userEmail (options u) \<noteq> []
                   then execGit e [''config'', ''user.email'', userEmail (options u)] False u
                   else return [] u) (\<lambda>_.
     (\<lambda>u. case repo (options u) of
             None \<Rightarrow> return () u
           | Some r \<Rightarrow>
               if r = [] then return () u
               else andThen (execGit e [''remote'', ''set-url'', ''origin'',
                                         serverUrl (options u) @ ''/'' @ r @ ''.git''] False) (\<lambda>_.
                    andThen (execGit e [''fetch'', ''origin''] True) (\<lambda>_. return ())) u)))"

text \<open>Lines 403 to 419: the branch, the commit and the push.\<close>

definition commitAndPush :: "env \<Rightarrow> unit action" where
  "commitAndPush e =
     andThen (\<lambda>u. execGit e [''checkout'', ''-b'', branch (options u)] True u) (\<lambda>_.
     andThen (\<lambda>u. execGit e [''add'', globalJsonPath (options u)] False u) (\<lambda>_.
     andThen (\<lambda>u. execGit e [''commit'', ''-m'', commitMessage (options u), ''-s''] False u) (\<lambda>_.
     andThen (execGit e [''log'', ''--format='' @ quote @ ''%H'' @ quote, ''-n'', ''1''] False) (\<lambda>sha1.
     (\<lambda>u. if \<not> dryRun (options u) \<and> repo (options u) \<noteq> None \<and> repo (options u) \<noteq> Some []
           then andThen (execGit e [''push'', ''-u'', ''origin'', branch (options u)] True)
                  (\<lambda>_. return ()) u
           else return () u)))))"

definition branchExistsArgs :: "string \<Rightarrow> string list" where
  "branchExistsArgs b = [''rev-parse'', ''--verify'', ''--quiet'', ''remotes/origin/'' @ b]"

definition applySdkUpdate :: "env \<Rightarrow> GlobalJson \<Rightarrow> SdkVersions \<Rightarrow> string option action" where
  "applySdkUpdate e globalJson versions =
     andThen (execGit e [''rev-parse'', ''--abbrev-ref'', ''HEAD''] False) (\<lambda>baseBranch.
     andThen (writeGlobalJson e globalJson (sdkVersion (latest versions))) (\<lambda>_.
     andThen (\<lambda>u. return () (configureDefaults versions u)) (\<lambda>_.
     andThen (configureGit e) (\<lambda>_.
     andThen (\<lambda>u. execGit e (branchExistsArgs (branch (options u))) True u) (\<lambda>branchExists.
     if branchExists \<noteq> [] then return None
     else andThen (commitAndPush e) (\<lambda>_. return (Some baseBranch)))))))"

subsection \<open>\<^verbatim>\<open>tryUpdateSdk\<close> and the outputs of \<^verbatim>\<open>run\<close>\<close>

text \<open>Lines 119 to 129: the manifest and its SDK version.\<close>

definition readSdkVersion :: "env \<Rightarrow> (GlobalJson \<times> string) action" where
  "readSdkVersion e u =
     (let u' = emit (ReadFile (globalJsonPath (options u))) u
      in case readJson e (globalJsonPath (options u)) of
           Inl err \<Rightarrow> (Inl err, u')
         | Inr globalJson \<Rightarrow>
             (let sdkVer = (case json_sdk globalJson of
                              None \<Rightarrow> []
                            | Some s \<Rightarrow> (case json_version s of None \<Rightarrow> [] | Some v \<Rightarrow> v))
              in if sdkVer = []
                 then (Inl (Error (''.NET SDK version cannot be found in '' @ quote
                                   @ globalJsonPath (options u) @ quote @ ''.'')), u')
                 else (Inr (globalJson, sdkVer), u')))"

text \<open>Lines 131 to 139: the channel, when not configured.\<close>

definition resolveChannel :: "string \<Rightarrow> unit action" where
  "resolveChannel sdkVer u =
     (if channel (options u) = []
      then (let versionParts = split CHR ''.'' sdkVer
            in if length versionParts < 2
               then (Inl (Error (''.NET SDK version '' @ quote @ sdkVer @ quote
                                 @ '' is not valid.'')), u)
               else (Inr (), u\<lparr>options := (options u)\<lparr>channel :=
                                 versionParts ! 0 @ ''.'' @ versionParts ! 1\<rparr>\<rparr>))
      else (Inr (), u))"

definition tryUpdateSdk :: "(string \<Rightarrow> 'k::linorder) \<Rightarrow> env \<Rightarrow> UpdateResult action" where
  "tryUpdateSdk collationKey e =
     andThen (readSdkVersion e) (\<lambda>(globalJson, sdkVer).
     andThen (resolveChannel sdkVer) (\<lambda>_.
     andThen (\<lambda>u. getDotNetReleaseChannel e (channel (options u)) u) (\<lambda>releaseChannel.
     (case getLatestRelease collationKey sdkVer releaseChannel of
        Inl err \<Rightarrow> throw err
      | Inr update \<Rightarrow>
          (let result = \<lparr>branchName = None,
                         pullRequestNumber = 0,
                         pullRequestUrl = [],
                         updated = False,
                         result_security = False,
                         version = sdkVersion (current update)\<rparr>
           in if sdkVersion (current update) \<noteq> sdkVersion (latest update)
              then andThen (applySdkUpdate e globalJson update) (\<lambda>baseBranch.
                     (case baseBranch of
                        None \<Rightarrow> return result
                      | Some b \<Rightarrow>
                          if b = [] then return result
                          else andThen (createPullRequest e b update) (\<lambda>pullRequest.
                                 return (result\<lparr>pullRequestNumber := pr_number pullRequest,
                                                pullRequestUrl := pr_url pullRequest,
                                                result_security := agg_security update,
                                                updated := True,
                                                version := sdkVersion (latest update)\<rparr>))))
              else return result)))))"

text \<open>
  \<^verbatim>\<open>main.ts\<close>, lines 48 to 56: the outputs that \<^verbatim>\<open>run\<close> sets from the result, in
  order, as the values handed to \<^verbatim>\<open>core.setOutput\<close>.
\<close>

datatype outputValue = Undefined | Str string | Num nat | Bool bool

definition reportOutputs :: "UpdateResult \<Rightarrow> (string \<times> outputValue) list" where
  "reportOutputs result =
     [(''branch-name'', (case branchName result of None \<Rightarrow> Undefined | Some b \<Rightarrow> Str b)),
      (''pull-request-number'', Num (pullRequestNumber result)),
      (''pull-request-html-url'', Str (pullRequestUrl result)),
      (''sdk-updated'', Bool (updated result)),
      (''sdk-version'', Str (version result)),
      (''security'', Bool (result_security result))]"

definition run ::
  "(string \<Rightarrow> 'k::linorder) \<Rightarrow> env \<Rightarrow> UpdateOptions \<Rightarrow> error + (string \<times> outputValue) list" where
  "run collationKey e opts =
     (case fst (tryUpdateSdk collationKey e \<lparr>options = opts, trace = []\<rparr>) of
        Inl err \<Rightarrow> Inl err
      | Inr result \<Rightarrow> Inr (reportOutputs result))"

subsection \<open>Vocabulary for the statements about the Version Matcher\<close>

text \<open>
  The first alternate descriptor of a release with the given version, when the release
  has a list of alternates and the list holds one.
\<close>

definition alternateOf :: "string \<Rightarrow> Release \<Rightarrow> Sdk option" where
  "alternateOf sdkVer info =
     (case sdks info of
        Present ss \<Rightarrow> find (\<lambda>s. sdk_version s = sdkVer) ss
      | _ \<Rightarrow> None)"

subsection \<open>Vocabulary for the statements about the patch-gap scan\<close>













subsection \<open>Vocabulary for the statements about a run\<close>

text \<open>
  The branch-existence check has found the branch: the command
  \<^verbatim>\<open>git rev-parse --verify --quiet remotes/origin/...\<close> has printed something other
  than white space.
\<close>

definition branchFound :: "event \<Rightarrow> bool" where
  "branchFound ev =
     (case ev of
        Git args ignoreErrors outcome \<Rightarrow>
          (case outcome of
             ExecResolved commandOutput commandError \<Rightarrow>
               take 3 args = [''rev-parse'', ''--verify'', ''--quiet''] \<and> trimEnd commandOutput \<noteq> []
           | ExecRejected err \<Rightarrow> False)
      | _ \<Rightarrow> False)"

text \<open>
  An effect that creates or publishes the update: a checkout, a staging, a commit or a
  push by git, the creation of a pull request, or a labelling of it.
\<close>

definition publishes :: "event \<Rightarrow> bool" where
  "publishes ev =
     (case ev of
        Git args ignoreErrors outcome \<Rightarrow>
          (case args of
             [] \<Rightarrow> False
           | command # rest \<Rightarrow> command \<in> {''checkout'', ''add'', ''commit'', ''push''})
      | PullsCreate request \<Rightarrow> True
      | AddLabels n ls \<Rightarrow> True
      | _ \<Rightarrow> False)"

text \<open>The effects that a part of a run adds, from the updater before it to the one after.\<close>

definition effects :: "updater \<Rightarrow> updater \<Rightarrow> event list" where
  "effects u u' = drop (length (trace u)) (trace u')"

text \<open>
  From \<open>u\<close> to \<open>u'\<close> the trace has only grown, and no added effect satisfies \<open>bad\<close>.
\<close>

definition without :: "(event \<Rightarrow> bool) \<Rightarrow> updater \<Rightarrow> updater \<Rightarrow> bool" where
  "without bad u u' =
     (\<exists>evs. trace u' = trace u @ evs \<and> list_all (\<lambda>ev. \<not> bad ev) evs)"

definition foundOrPublishes :: "event \<Rightarrow> bool" where
  "foundOrPublishes ev = (branchFound ev \<or> publishes ev)"

subsection \<open>Vocabulary for the statements about the Update Classifier\<close>

text \<open>
  The number that \<^verbatim>\<open>parseInt(version.split('.')[i], 10)\<close> gives for a version text,
  whether it is within the exact integers, and whether the number of the latest version
  exceeds that of the current one (false as soon as one of them is \<^verbatim>\<open>NaN\<close>).
\<close>

definition segmentValue :: "string \<Rightarrow> nat \<Rightarrow> int option" where
  "segmentValue ver i = parseIntAt (split CHR ''.'' ver) i"

definition safeSegment :: "string \<Rightarrow> nat \<Rightarrow> bool" where
  "safeSegment ver i = (case segmentValue ver i of None \<Rightarrow> True | Some n \<Rightarrow> safeInteger n)"

definition segmentExceeds :: "string \<Rightarrow> string \<Rightarrow> nat \<Rightarrow> bool" where
  "segmentExceeds latestVer currentVer i =
     (case (segmentValue latestVer i, segmentValue currentVer i) of
        (Some b, Some a) \<Rightarrow> a < b
      | _ \<Rightarrow> False)"

subsection \<open>Example channels\<close>

definition exampleRelease ::
  "string \<Rightarrow> string \<Rightarrow> bool \<Rightarrow> Cve list option \<Rightarrow> Sdk list property \<Rightarrow> Release" where
  "exampleRelease runtimeVer sdkVer sec cves alternates =
     \<lparr>security = sec, cve_list = cves,
      release_notes = ''https://example.test/'' @ runtimeVer,
      runtime = \<lparr>runtime_version = runtimeVer\<rparr>,
      sdk = \<lparr>sdk_version = sdkVer\<rparr>,
      sdks = alternates\<rparr>"

definition exampleCve :: "string \<Rightarrow> Cve" where
  "exampleCve name = \<lparr>cve_id = name, cve_url = ''https://example.test/cve/'' @ name\<rparr>"

text \<open>
  A channel in which 8.0.101 is the primary descriptor of one release and an alternate
  of another, and 8.0.102 is an alternate only.
\<close>

definition alternateChannel :: ReleaseChannel where
  "alternateChannel =
     \<lparr>latest_sdk = ''8.0.200'',
      releases =
        [exampleRelease ''8.0.2'' ''8.0.200'' False None
           (Present [\<lparr>sdk_version = ''8.0.200''\<rparr>, \<lparr>sdk_version = ''8.0.101''\<rparr>,
                  \<lparr>sdk_version = ''8.0.102''\<rparr>]),
         exampleRelease ''8.0.1'' ''8.0.101'' False None (Present [\<lparr>sdk_version = ''8.0.101''\<rparr>])]\<rparr>"

text \<open>
  A channel in which the release 8.0.1 has no \<^verbatim>\<open>sdks\<close> key; 8.0.102 is an alternate of
  the release 8.0.2 only, and 8.0.103 is in the channel nowhere.
\<close>

definition missingKeyChannel :: ReleaseChannel where
  "missingKeyChannel =
     \<lparr>latest_sdk = ''8.0.200'',
      releases =
        [exampleRelease ''8.0.2'' ''8.0.200'' False None
           (Present [\<lparr>sdk_version = ''8.0.200''\<rparr>, \<lparr>sdk_version = ''8.0.102''\<rparr>]),
         exampleRelease ''8.0.1'' ''8.0.101'' False None Missing]\<rparr>"

text \<open>A channel in which two releases have the primary descriptor 8.0.101.\<close>

definition ambiguousChannel :: ReleaseChannel where
  "ambiguousChannel =
     \<lparr>latest_sdk = ''8.0.101'',
      releases =
        [exampleRelease ''8.0.2'' ''8.0.200'' False None (Present [\<lparr>sdk_version = ''8.0.101''\<rparr>]),
         exampleRelease ''8.0.1'' ''8.0.101'' False None Null,
         exampleRelease ''8.0.0'' ''8.0.101'' False None Null]\<rparr>"

text \<open>
  Current 8.0.101 (runtime 8.0.1), latest 8.0.104 (runtime 8.0.4): the releases 8.0.2 and
  8.0.3 are skipped, and 8.0.2 is a security release.
\<close>

definition gapChannel :: ReleaseChannel where
  "gapChannel =
     \<lparr>latest_sdk = ''8.0.104'',
      releases =
        [exampleRelease ''8.0.4'' ''8.0.104'' True
           (Some [exampleCve ''CVE-2024-0003'', exampleCve ''CVE-2024-0001'']) Null,
         exampleRelease ''8.0.3'' ''8.0.103'' False None Null,
         exampleRelease ''8.0.2'' ''8.0.102'' True (Some [exampleCve ''CVE-2024-0002'']) Null,
         exampleRelease ''8.0.1'' ''8.0.101'' False (Some []) Null]\<rparr>"

text \<open>
  Current 8.0.101 is a security release; the skipped release 8.0.2 and the latest release
  8.0.3 are not.
\<close>

definition currentFlaggedChannel :: ReleaseChannel where
  "currentFlaggedChannel =
     \<lparr>latest_sdk = ''8.0.103'',
      releases =
        [exampleRelease ''8.0.3'' ''8.0.103'' False None Null,
         exampleRelease ''8.0.2'' ''8.0.102'' False None Null,
         exampleRelease ''8.0.1'' ''8.0.101'' True (Some [exampleCve ''CVE-2024-0001'']) Null]\<rparr>"





text \<open>The collation that orders identifiers by their characters, used in the examples.\<close>

definition ordinal :: "string \<Rightarrow> string" where
  "ordinal s = s"

definition exampleIssue :: "string \<Rightarrow> CveInfo" where
  "exampleIssue name = \<lparr>issue_id = name, issue_url = ''https://example.test/cve/'' @ name\<rparr>"

definition exampleInfo :: "string \<Rightarrow> string \<Rightarrow> bool \<Rightarrow> CveInfo list \<Rightarrow> ReleaseInfo" where
  "exampleInfo runtimeVer sdkVer sec issues =
     \<lparr>releaseNotes = ''https://example.test/'' @ runtimeVer,
      runtimeVersion = runtimeVer,
      sdkVersion = sdkVer,
      info_security = sec,
      info_securityIssues = issues\<rparr>"


definition currentFlaggedResult :: SdkVersions where
  "currentFlaggedResult =
     \<lparr>current = exampleInfo ''8.0.1'' ''8.0.101'' True [exampleIssue ''CVE-2024-0001''],
      latest = exampleInfo ''8.0.3'' ''8.0.103'' False [],
      agg_security = True,
      agg_securityIssues = [exampleIssue ''CVE-2024-0001'']\<rparr>"





subsection \<open>Example runs\<close>

definition exampleOptions :: UpdateOptions where
  "exampleOptions =
     \<lparr>accessToken = ''token'',
      apiUrl = ''https://api.example.test'',
      branch = [],
      channel = [],
      commitMessage = [],
      dryRun = False,
      globalJsonPath = ''global.json'',
      labels = [],
      repo = Some ''owner/project'',
      runId = ''1'',
      serverUrl = ''https://example.test'',
      userEmail = [],
      userName = []\<rparr>"

definition exampleManifest :: "string \<Rightarrow> GlobalJson" where
  "exampleManifest sdkVer = \<lparr>json_sdk = Some \<lparr>json_version = Some sdkVer\<rparr>\<rparr>"

text \<open>
  The manifest pins \<open>pinned\<close>, the feed is \<open>gapChannel\<close>, the checked-out branch is
  \<open>main\<close>, and the branch-existence check prints \<open>found\<close>; every other git command
  prints nothing.
\<close>

definition exampleEnv :: "string \<Rightarrow> string \<Rightarrow> env" where
  "exampleEnv pinned found =
     \<lparr>readJson = (\<lambda>path. Inr (exampleManifest pinned)),
      writeFile = (\<lambda>path written. None),
      getJson = (\<lambda>address. Inr (200, Some gapChannel)),
      execProcess = (\<lambda>history args ignoreErrors.
        if args = [''rev-parse'', ''--abbrev-ref'', ''HEAD''] then ExecResolved ''main'' []
        else if take 3 args = [''rev-parse'', ''--verify'', ''--quiet''] then ExecResolved found []
        else ExecResolved [] []),
      pullsCreate = (\<lambda>request. Inr \<lparr>pr_number = 42, pr_url = ''https://example.test/pull/42''\<rparr>)\<rparr>"

definition exampleUpdater :: updater where
  "exampleUpdater = \<lparr>options = exampleOptions, trace = []\<rparr>"

text \<open>The manifest already pins the latest version 8.0.104 of \<open>gapChannel\<close>.\<close>

definition upToDateVersions :: SdkVersions where
  "upToDateVersions =
     \<lparr>current = exampleInfo ''8.0.4'' ''8.0.104'' True
                  [exampleIssue ''CVE-2024-0003'', exampleIssue ''CVE-2024-0001''],
      latest = exampleInfo ''8.0.4'' ''8.0.104'' True
                 [exampleIssue ''CVE-2024-0001'', exampleIssue ''CVE-2024-0003''],
      agg_security = True,
      agg_securityIssues = [exampleIssue ''CVE-2024-0001'', exampleIssue ''CVE-2024-0003'']\<rparr>"

definition afterRead :: updater where
  "afterRead = \<lparr>options = exampleOptions, trace = [ReadFile ''global.json'']\<rparr>"

definition afterChannel :: updater where
  "afterChannel =
     \<lparr>options = exampleOptions\<lparr>channel := ''8.0''\<rparr>, trace = [ReadFile ''global.json'']\<rparr>"

definition afterFetch :: updater where
  "afterFetch =
     \<lparr>options = exampleOptions\<lparr>channel := ''8.0''\<rparr>,
      trace = [ReadFile ''global.json'',
               HttpGet ''https://raw.githubusercontent.com/dotnet/core/main/release-notes/8.0/releases.json'']\<rparr>"

section \<open>Splitting, parsing and printing\<close>

lemma split_nodot: "sep \<notin> set a \<Longrightarrow> split sep a = [a]"
  by (induction a) auto

lemma split_append: "sep \<notin> set a \<Longrightarrow> split sep (a @ sep # rest) = a # split sep rest"
  by (induction a) auto

lemma showNat_nonempty: "showNat n \<noteq> []"
  by (subst showNat.simps) simp

lemma isDigit_char_of: "(d::nat) < 10 \<Longrightarrow> isDigit (char_of (48 + d))"
  by (simp add: isDigit_def)

lemma digitValue_char_of: "(d::nat) < 10 \<Longrightarrow> digitValue (char_of (48 + d)) = d"
  by (simp add: digitValue_def)

lemma showNat_digits: "c \<in> set (showNat n) \<Longrightarrow> isDigit c"
proof (induction n arbitrary: c rule: showNat.induct)
  case (1 n)
  show ?case
  proof (cases "n < 10")
    case True
    with "1.prems" show ?thesis
      by (subst (asm) showNat.simps) (simp add: isDigit_char_of)
  next
    case False
    with "1.prems" have "c \<in> set (showNat (n div 10)) \<or> c = char_of (48 + n mod 10)"
      by (subst (asm) showNat.simps) auto
    with False "1.IH" show ?thesis
      by (auto simp: isDigit_char_of)
  qed
qed

lemma digitsValue_snoc: "digitsValue (ds @ [c]) = 10 * digitsValue ds + digitValue c"
  by (simp add: digitsValue_def)

lemma digitsValue_showNat: "digitsValue (showNat n) = n"
proof (induction n rule: showNat.induct)
  case (1 n)
  show ?case
  proof (cases "n < 10")
    case True
    then show ?thesis
      by (subst showNat.simps) (simp add: digitsValue_def digitValue_char_of)
  next
    case False
    with "1.IH" show ?thesis
      by (subst showNat.simps) (simp add: digitsValue_snoc digitValue_char_of)
  qed
qed

lemma isDigit_not_space: "isDigit c \<Longrightarrow> \<not> isWhiteSpace c"
  by (auto simp: isDigit_def isWhiteSpace_def)

lemma isDigit_not_sign: "isDigit c \<Longrightarrow> c \<noteq> CHR ''-'' \<and> c \<noteq> CHR ''+'' \<and> c \<noteq> CHR ''.''"
  by (auto simp: isDigit_def)

lemma parseInt_digits:
  assumes "ds \<noteq> []" and "\<forall>c \<in> set ds. isDigit c"
  shows "parseInt ds = Some (int (digitsValue ds))"
proof -
  from assms obtain c cs where ds: "ds = c # cs" by (cases ds) auto
  with assms have c: "isDigit c" by simp
  have dw: "dropWhile isWhiteSpace ds = ds"
    using c ds by (simp add: isDigit_not_space)
  have tw: "takeWhile isDigit ds = ds"
    using assms(2) by (simp add: takeWhile_eq_all_conv)
  have sign: "hd ds \<noteq> CHR ''-''" "hd ds \<noteq> CHR ''+''"
    using ds isDigit_not_sign [OF c] by simp_all
  show ?thesis
    unfolding parseInt_def Let_def dw using sign assms(1) by (simp add: tw)
qed

lemma parseInt_showNat: "parseInt (showNat n) = Some (int n)"
  using parseInt_digits [of "showNat n"] showNat_nonempty showNat_digits
  by (simp add: digitsValue_showNat)

lemma showNat_no_dot: "CHR ''.'' \<notin> set (showNat n)"
  using showNat_digits isDigit_not_sign by blast


lemma numberToString_no_dot: "CHR ''.'' \<notin> set (numberToString x)"
  by (auto simp: numberToString_def showNat_no_dot split: option.splits)

lemma split_versionString:
  "split CHR ''.'' (versionString a b p) = [numberToString a, numberToString b, numberToString (Some p)]"
  by (simp add: versionString_def split_append split_nodot numberToString_no_dot)


lemma parseInt_numberToString: "0 \<le> p \<Longrightarrow> parseInt (numberToString (Some p)) = Some p"
  by (simp add: numberToString_def parseInt_showNat)

lemma at_simps:
  "at [] n = None" "at (x # xs) 0 = Some x" "at (x # xs) (Suc n) = at xs n"
  by (simp_all add: at_def)

section \<open>The Version Matcher\<close>

lemma matchingAlternate_present:
  "sdks r \<noteq> Missing \<Longrightarrow> matchingAlternate v r = Inr (alternateOf v r)"
  by (cases "sdks r") (simp_all add: matchingAlternate_def alternateOf_def)

lemma matchingAlternate_missing:
  "sdks r = Missing \<Longrightarrow> matchingAlternate v r = Inl notIterable"
  by (simp add: matchingAlternate_def)

lemma alternateOf_Some:
  "alternateOf v r = Some s \<Longrightarrow>
     sdk_version s = v \<and> (\<exists>ss. sdks r = Present ss \<and> s \<in> set ss)"
  by (auto simp: alternateOf_def find_Some_iff split: property.splits)

lemma alternateOf_None:
  "alternateOf v r = None \<longleftrightarrow>
     (\<forall>ss. sdks r = Present ss \<longrightarrow> (\<forall>s \<in> set ss. sdk_version s \<noteq> v))"
  by (auto simp: alternateOf_def find_None_iff split: property.splits)

lemma scanAlternates_missing:
  "\<exists>r \<in> set rs. sdks r = Missing \<Longrightarrow> scanAlternates v rs f = Inl notIterable"
proof (induction rs arbitrary: f)
  case Nil
  then show ?case by simp
next
  case (Cons r rs)
  show ?case
  proof (cases "sdks r = Missing")
    case True
    then show ?thesis by (simp add: matchingAlternate_missing)
  next
    case False
    with Cons.prems have "\<exists>r \<in> set rs. sdks r = Missing" by simp
    then have "scanAlternates v rs g = Inl notIterable" for g by (rule Cons.IH)
    with False show ?thesis
      by (simp add: matchingAlternate_present split: option.splits)
  qed
qed

lemma scanAlternates_present:
  assumes "\<forall>r \<in> set rs. sdks r \<noteq> Missing"
  shows "\<exists>found. scanAlternates v rs f = Inr (filter (\<lambda>r. alternateOf v r \<noteq> None) rs, found)
           \<and> (if filter (\<lambda>r. alternateOf v r \<noteq> None) rs = [] then found = f
               else \<exists>s. found = Some s \<and> sdk_version s = v)"
  using assms
proof (induction rs arbitrary: f)
  case Nil
  then show ?case by simp
next
  case (Cons r rs)
  then have r: "matchingAlternate v r = Inr (alternateOf v r)"
    by (simp add: matchingAlternate_present)
  from Cons.prems have rest: "\<forall>r \<in> set rs. sdks r \<noteq> Missing" by simp
  show ?case
  proof (cases "alternateOf v r")
    case None
    with r Cons.IH [OF rest, of f] show ?thesis by simp
  next
    case (Some s)
    then have "sdk_version s = v" by (simp add: alternateOf_Some)
    with r Some Cons.IH [OF rest, of "Some s"] show ?thesis
      by (auto split: if_splits)
  qed
qed


lemma getReleaseForSdk_many:
  assumes "length (filter (\<lambda>r. sdk_version (sdk r) = v) (releases ch)) > 1"
  shows "getReleaseForSdk v ch = Inl (notFound v)"
  using assms by (auto simp: getReleaseForSdk_def Let_def split: list.splits)

lemma getReleaseForSdk_missing:
  assumes "filter (\<lambda>r. sdk_version (sdk r) = v) (releases ch) = []"
      and "\<exists>r \<in> set (releases ch). sdks r = Missing"
  shows "getReleaseForSdk v ch = Inl notIterable"
  using assms(1) scanAlternates_missing [OF assms(2), of v None]
  by (simp add: getReleaseForSdk_def)

lemma getReleaseForSdk_none:
  assumes "filter (\<lambda>r. sdk_version (sdk r) = v) (releases ch) = []"
      and "\<forall>r \<in> set (releases ch). sdks r \<noteq> Missing"
      and "filter (\<lambda>r. alternateOf v r \<noteq> None) (releases ch) = []"
  shows "getReleaseForSdk v ch = Inl (notFound v)"
  using assms(1,3) scanAlternates_present [OF assms(2), of v None]
  by (auto simp: getReleaseForSdk_def)








text \<open>
  C5, as amended. A version that is neither the primary descriptor of a release of the
  channel nor an entry of the alternate list of one makes \<open>getReleaseForSdk\<close> fail: no
  \<open>ReleaseInfo\<close> is returned, and when every release of the channel has the \<^verbatim>\<open>sdks\<close>
  property (an array or \<^verbatim>\<open>null\<close>), the error is the one that names the requested
  version.
\<close>

theorem getReleaseForSdk_absent:
  assumes "\<forall>r \<in> set (releases ch). sdk_version (sdk r) \<noteq> v"
      and "\<forall>r \<in> set (releases ch). \<forall>ss. sdks r = Present ss \<longrightarrow> (\<forall>s \<in> set ss. sdk_version s \<noteq> v)"
  shows "((\<forall>r \<in> set (releases ch). sdks r \<noteq> Missing) \<longrightarrow>
            getReleaseForSdk v ch
            = Inl (Error (''Failed to find release for .NET SDK version '' @ v)))
         \<and> (\<exists>e. getReleaseForSdk v ch = Inl e)"
proof -
  have p: "filter (\<lambda>r. sdk_version (sdk r) = v) (releases ch) = []"
    using assms(1) by (simp add: filter_empty_conv)
  have a: "filter (\<lambda>r. alternateOf v r \<noteq> None) (releases ch) = []"
    using assms(2) by (simp add: filter_empty_conv alternateOf_None)
  have present: "getReleaseForSdk v ch
            = Inl (Error (''Failed to find release for .NET SDK version '' @ v))"
    if "\<forall>r \<in> set (releases ch). sdks r \<noteq> Missing"
    using getReleaseForSdk_none [OF p that a] by (simp add: notFound_def)
  have "\<exists>e. getReleaseForSdk v ch = Inl e"
  proof (cases "\<exists>r \<in> set (releases ch). sdks r = Missing")
    case True
    with p have "getReleaseForSdk v ch = Inl notIterable"
      by (rule getReleaseForSdk_missing)
    then show ?thesis by blast
  next
    case False
    then have "\<forall>r \<in> set (releases ch). sdks r \<noteq> Missing" by simp
    then show ?thesis using present by blast
  qed
  with present show ?thesis by blast
qed

theorem getReleaseForSdk_absent_witness:
  "getReleaseForSdk ''8.0.103'' alternateChannel
     = Inl (Error ''Failed to find release for .NET SDK version 8.0.103'')"
proof -
  have h1: "\<forall>r \<in> set (releases alternateChannel). sdk_version (sdk r) \<noteq> ''8.0.103''"
    by (simp add: alternateChannel_def exampleRelease_def)
  have h2: "\<forall>r \<in> set (releases alternateChannel).
              \<forall>ss. sdks r = Present ss \<longrightarrow> (\<forall>s \<in> set ss. sdk_version s \<noteq> ''8.0.103'')"
    by (simp add: alternateChannel_def exampleRelease_def)
  have h3: "\<forall>r \<in> set (releases alternateChannel). sdks r \<noteq> Missing"
    by (simp add: alternateChannel_def exampleRelease_def)
  from getReleaseForSdk_absent [OF h1 h2, THEN conjunct1, THEN mp, OF h3]
  show ?thesis by simp
qed

text \<open>
  C5 as stated fails: the version 8.0.103 is in the channel nowhere, and the release 8.0.1
  has no \<^verbatim>\<open>sdks\<close> key; the error is the one of the iteration and does not name the
  version.
\<close>

theorem getReleaseForSdk_missing_key:
  "getReleaseForSdk ''8.0.103'' missingKeyChannel = Inl (TypeError ''info.sdks is not iterable'')
   \<and> filter (\<lambda>r. sdk_version (sdk r) = ''8.0.103'') (releases missingKeyChannel) = []
   \<and> filter (\<lambda>r. alternateOf ''8.0.103'' r \<noteq> None) (releases missingKeyChannel) = []
   \<and> sdks (releases missingKeyChannel ! 1) = Missing"
proof -
  have "getReleaseForSdk ''8.0.103'' missingKeyChannel
        = Inl (TypeError ''info.sdks is not iterable'')"
    by code_simp
  moreover have "filter (\<lambda>r. sdk_version (sdk r) = ''8.0.103'') (releases missingKeyChannel) = []"
    by code_simp
  moreover have "filter (\<lambda>r. alternateOf ''8.0.103'' r \<noteq> None) (releases missingKeyChannel) = []"
    by code_simp
  moreover have "sdks (releases missingKeyChannel ! 1) = Missing"
    by code_simp
  ultimately show ?thesis by (intro conjI)
qed

text \<open>
  C10. When more than one release of the channel has the requested version as its
  primary descriptor, \<open>getReleaseForSdk\<close> selects none of them and does not turn to the
  alternates, whatever they hold: it fails with the error of an absent version.
\<close>

theorem getReleaseForSdk_ambiguous_primary:
  assumes "length (filter (\<lambda>r. sdk_version (sdk r) = v) (releases ch)) > 1"
  shows "getReleaseForSdk v ch
         = Inl (Error (''Failed to find release for .NET SDK version '' @ v))"
  using assms by (simp add: getReleaseForSdk_many notFound_def)

theorem getReleaseForSdk_ambiguous_primary_witness:
  "length (filter (\<lambda>r. sdk_version (sdk r) = ''8.0.101'') (releases ambiguousChannel)) = 2
   \<and> matchingAlternate ''8.0.101'' (releases ambiguousChannel ! 0)
     = Inr (Some \<lparr>sdk_version = ''8.0.101''\<rparr>)
   \<and> getReleaseForSdk ''8.0.101'' ambiguousChannel
     = Inl (Error ''Failed to find release for .NET SDK version 8.0.101'')"
proof -
  have h: "length (filter (\<lambda>r. sdk_version (sdk r) = ''8.0.101'') (releases ambiguousChannel)) = 2"
    by code_simp
  have m: "matchingAlternate ''8.0.101'' (releases ambiguousChannel ! 0)
            = Inr (Some \<lparr>sdk_version = ''8.0.101''\<rparr>)"
    by code_simp
  have "length (filter (\<lambda>r. sdk_version (sdk r) = ''8.0.101'') (releases ambiguousChannel)) > 1"
    using h by simp
  from getReleaseForSdk_ambiguous_primary [OF this] h m show ?thesis by simp
qed

section \<open>The Update Classifier\<close>

lemma updateKind_segments:
  "updateKind cur lat
   = (if segmentExceeds lat cur 0 then ''major''
      else if segmentExceeds lat cur 1 then ''minor'' else ''patch'')"
  by (auto simp: updateKind_def segmentExceeds_def segmentValue_def numGreater_def Let_def
           split: option.splits)

lemma generateCommitMessage_text:
  "generateCommitMessage cur lat
         = ''Update .NET SDK'' @ [CHR 0x0A, CHR 0x0A]
           @ ''Update .NET SDK to version '' @ lat @ ''.'' @ [CHR 0x0A, CHR 0x0A]
           @ ''---'' @ [CHR 0x0A]
           @ ''updated-dependencies:'' @ [CHR 0x0A]
           @ ''- dependency-name: Microsoft.NET.Sdk'' @ [CHR 0x0A]
           @ ''  dependency-type: direct:production'' @ [CHR 0x0A]
           @ ''  update-type: version-update:semver-''
           @ (if segmentExceeds lat cur 0 then ''major''
              else if segmentExceeds lat cur 1 then ''minor'' else ''patch'') @ [CHR 0x0A]
           @ ''...'' @ [CHR 0x0A, CHR 0x0A]"
  unfolding generateCommitMessage_def updateKind_segments
  by (simp add: joinWith_def newline_def)

lemma segmentValue_versionString:
  assumes "0 \<le> a" and "0 \<le> b"
  shows "segmentValue (versionString (Some a) (Some b) c) 0 = Some a"
    and "segmentValue (versionString (Some a) (Some b) c) (Suc 0) = Some b"
  using assms
  by (simp_all add: segmentValue_def parseIntAt_def split_versionString at_simps
        parseInt_numberToString)

lemma segmentExceeds_versionString:
  assumes "0 \<le> a0" and "0 \<le> a1" and "0 \<le> b0" and "0 \<le> b1"
  shows "segmentExceeds (versionString (Some b0) (Some b1) b2) (versionString (Some a0) (Some a1) a2) 0
         \<longleftrightarrow> a0 < b0"
    and "segmentExceeds (versionString (Some b0) (Some b1) b2) (versionString (Some a0) (Some a1) a2) 1
         \<longleftrightarrow> a1 < b1"
  using assms by (simp_all add: segmentExceeds_def segmentValue_versionString)

text \<open>
  C8. \<open>generateCommitMessage\<close> classifies the update as major when the integer of the
  first dot-separated segment of the latest version exceeds that of the current version,
  otherwise as minor when the integer of the second segment does, otherwise as patch,
  and the message is the fixed text with the line
  \<^verbatim>\<open>  update-type: version-update:semver-\<close> followed by the classification. The integers
  are taken within the range in which the numbers of the source are exact. The same is
  said for two versions written from their integers. In particular 1.0.0 to 2.0.0 is
  major, 1.2.0 to 1.3.0 is minor and 1.2.3 to 1.2.4 is patch; 1 to 2 is major, and 2.1.0
  to 1.5.0 is minor.
\<close>

theorem generateCommitMessage_classification:
  assumes "safeSegment cur 0" and "safeSegment lat 0"
      and "safeSegment cur 1" and "safeSegment lat 1"
  shows "generateCommitMessage cur lat
         = ''Update .NET SDK'' @ [CHR 0x0A, CHR 0x0A]
           @ ''Update .NET SDK to version '' @ lat @ ''.'' @ [CHR 0x0A, CHR 0x0A]
           @ ''---'' @ [CHR 0x0A]
           @ ''updated-dependencies:'' @ [CHR 0x0A]
           @ ''- dependency-name: Microsoft.NET.Sdk'' @ [CHR 0x0A]
           @ ''  dependency-type: direct:production'' @ [CHR 0x0A]
           @ ''  update-type: version-update:semver-''
           @ (if segmentExceeds lat cur 0 then ''major''
              else if segmentExceeds lat cur 1 then ''minor'' else ''patch'') @ [CHR 0x0A]
           @ ''...'' @ [CHR 0x0A, CHR 0x0A]
       \<and> (\<forall>a0 a1 a2 b0 b1 b2.
           0 \<le> a0 \<and> 0 \<le> a1 \<and> 0 \<le> b0 \<and> 0 \<le> b1 \<and>
           safeInteger a0 \<and> safeInteger a1 \<and> safeInteger b0 \<and> safeInteger b1 \<longrightarrow>
           generateCommitMessage (versionString (Some a0) (Some a1) a2)
             (versionString (Some b0) (Some b1) b2)
           = ''Update .NET SDK'' @ [CHR 0x0A, CHR 0x0A]
             @ ''Update .NET SDK to version '' @ versionString (Some b0) (Some b1) b2 @ ''.'' @ [CHR 0x0A, CHR 0x0A]
             @ ''---'' @ [CHR 0x0A]
             @ ''updated-dependencies:'' @ [CHR 0x0A]
             @ ''- dependency-name: Microsoft.NET.Sdk'' @ [CHR 0x0A]
             @ ''  dependency-type: direct:production'' @ [CHR 0x0A]
             @ ''  update-type: version-update:semver-''
             @ (if a0 < b0 then ''major'' else if a1 < b1 then ''minor'' else ''patch'') @ [CHR 0x0A]
             @ ''...'' @ [CHR 0x0A, CHR 0x0A])
       \<and> generateCommitMessage ''1.0.0'' ''2.0.0''
         = ''Update .NET SDK'' @ [CHR 0x0A, CHR 0x0A]
           @ ''Update .NET SDK to version 2.0.0.'' @ [CHR 0x0A, CHR 0x0A]
           @ ''---'' @ [CHR 0x0A]
           @ ''updated-dependencies:'' @ [CHR 0x0A]
           @ ''- dependency-name: Microsoft.NET.Sdk'' @ [CHR 0x0A]
           @ ''  dependency-type: direct:production'' @ [CHR 0x0A]
           @ ''  update-type: version-update:semver-major'' @ [CHR 0x0A]
           @ ''...'' @ [CHR 0x0A, CHR 0x0A]
       \<and> generateCommitMessage ''1.2.0'' ''1.3.0''
         = ''Update .NET SDK'' @ [CHR 0x0A, CHR 0x0A]
           @ ''Update .NET SDK to version 1.3.0.'' @ [CHR 0x0A, CHR 0x0A]
           @ ''---'' @ [CHR 0x0A]
           @ ''updated-dependencies:'' @ [CHR 0x0A]
           @ ''- dependency-name: Microsoft.NET.Sdk'' @ [CHR 0x0A]
           @ ''  dependency-type: direct:production'' @ [CHR 0x0A]
           @ ''  update-type: version-update:semver-minor'' @ [CHR 0x0A]
           @ ''...'' @ [CHR 0x0A, CHR 0x0A]
       \<and> generateCommitMessage ''1.2.3'' ''1.2.4''
         = ''Update .NET SDK'' @ [CHR 0x0A, CHR 0x0A]
           @ ''Update .NET SDK to version 1.2.4.'' @ [CHR 0x0A, CHR 0x0A]
           @ ''---'' @ [CHR 0x0A]
           @ ''updated-dependencies:'' @ [CHR 0x0A]
           @ ''- dependency-name: Microsoft.NET.Sdk'' @ [CHR 0x0A]
           @ ''  dependency-type: direct:production'' @ [CHR 0x0A]
           @ ''  update-type: version-update:semver-patch'' @ [CHR 0x0A]
           @ ''...'' @ [CHR 0x0A, CHR 0x0A]
       \<and> generateCommitMessage ''1'' ''2''
         = ''Update .NET SDK'' @ [CHR 0x0A, CHR 0x0A]
           @ ''Update .NET SDK to version 2.'' @ [CHR 0x0A, CHR 0x0A]
           @ ''---'' @ [CHR 0x0A]
           @ ''updated-dependencies:'' @ [CHR 0x0A]
           @ ''- dependency-name: Microsoft.NET.Sdk'' @ [CHR 0x0A]
           @ ''  dependency-type: direct:production'' @ [CHR 0x0A]
           @ ''  update-type: version-update:semver-major'' @ [CHR 0x0A]
           @ ''...'' @ [CHR 0x0A, CHR 0x0A]
       \<and> generateCommitMessage ''2.1.0'' ''1.5.0''
         = ''Update .NET SDK'' @ [CHR 0x0A, CHR 0x0A]
           @ ''Update .NET SDK to version 1.5.0.'' @ [CHR 0x0A, CHR 0x0A]
           @ ''---'' @ [CHR 0x0A]
           @ ''updated-dependencies:'' @ [CHR 0x0A]
           @ ''- dependency-name: Microsoft.NET.Sdk'' @ [CHR 0x0A]
           @ ''  dependency-type: direct:production'' @ [CHR 0x0A]
           @ ''  update-type: version-update:semver-minor'' @ [CHR 0x0A]
           @ ''...'' @ [CHR 0x0A, CHR 0x0A]"
proof (intro conjI allI impI)
  show "generateCommitMessage cur lat
         = ''Update .NET SDK'' @ [CHR 0x0A, CHR 0x0A]
           @ ''Update .NET SDK to version '' @ lat @ ''.'' @ [CHR 0x0A, CHR 0x0A]
           @ ''---'' @ [CHR 0x0A]
           @ ''updated-dependencies:'' @ [CHR 0x0A]
           @ ''- dependency-name: Microsoft.NET.Sdk'' @ [CHR 0x0A]
           @ ''  dependency-type: direct:production'' @ [CHR 0x0A]
           @ ''  update-type: version-update:semver-''
           @ (if segmentExceeds lat cur 0 then ''major''
              else if segmentExceeds lat cur 1 then ''minor'' else ''patch'') @ [CHR 0x0A]
           @ ''...'' @ [CHR 0x0A, CHR 0x0A]"
    by (rule generateCommitMessage_text)
next
  fix a0 a1 a2 b0 b1 b2 :: int
  assume "0 \<le> a0 \<and> 0 \<le> a1 \<and> 0 \<le> b0 \<and> 0 \<le> b1 \<and>
           safeInteger a0 \<and> safeInteger a1 \<and> safeInteger b0 \<and> safeInteger b1"
  then have n: "0 \<le> a0" "0 \<le> a1" "0 \<le> b0" "0 \<le> b1"
    by simp_all
  show "generateCommitMessage (versionString (Some a0) (Some a1) a2)
             (versionString (Some b0) (Some b1) b2)
           = ''Update .NET SDK'' @ [CHR 0x0A, CHR 0x0A]
             @ ''Update .NET SDK to version '' @ versionString (Some b0) (Some b1) b2 @ ''.'' @ [CHR 0x0A, CHR 0x0A]
             @ ''---'' @ [CHR 0x0A]
             @ ''updated-dependencies:'' @ [CHR 0x0A]
             @ ''- dependency-name: Microsoft.NET.Sdk'' @ [CHR 0x0A]
             @ ''  dependency-type: direct:production'' @ [CHR 0x0A]
             @ ''  update-type: version-update:semver-''
             @ (if a0 < b0 then ''major'' else if a1 < b1 then ''minor'' else ''patch'') @ [CHR 0x0A]
             @ ''...'' @ [CHR 0x0A, CHR 0x0A]"
    unfolding generateCommitMessage_text segmentExceeds_versionString [OF n]
    by simp
qed code_simp+

theorem generateCommitMessage_classification_witness:
  "generateCommitMessage ''8.0.100'' ''9.0.100''
     = ''Update .NET SDK'' @ [CHR 0x0A, CHR 0x0A]
       @ ''Update .NET SDK to version 9.0.100.'' @ [CHR 0x0A, CHR 0x0A]
       @ ''---'' @ [CHR 0x0A]
       @ ''updated-dependencies:'' @ [CHR 0x0A]
       @ ''- dependency-name: Microsoft.NET.Sdk'' @ [CHR 0x0A]
       @ ''  dependency-type: direct:production'' @ [CHR 0x0A]
       @ ''  update-type: version-update:semver-major'' @ [CHR 0x0A]
       @ ''...'' @ [CHR 0x0A, CHR 0x0A]"
proof -
  have s: "safeSegment ''8.0.100'' 0" "safeSegment ''9.0.100'' 0"
    "safeSegment ''8.0.100'' 1" "safeSegment ''9.0.100'' 1"
    by code_simp+
  have x: "segmentExceeds ''9.0.100'' ''8.0.100'' 0"
    by code_simp
  have v: "versionString (Some 8) (Some 0) 100 = ''8.0.100''"
    "versionString (Some 9) (Some 0) 100 = ''9.0.100''"
    by code_simp+
  have b: "(0::int) \<le> 8 \<and> (0::int) \<le> 0 \<and> (0::int) \<le> 9 \<and> (0::int) \<le> 0 \<and>
           safeInteger 8 \<and> safeInteger 0 \<and> safeInteger 9 \<and> safeInteger 0"
    by (simp add: safeInteger_def)
  from generateCommitMessage_classification [OF s, THEN conjunct1] x
  have first: "generateCommitMessage ''8.0.100'' ''9.0.100''
     = ''Update .NET SDK'' @ [CHR 0x0A, CHR 0x0A]
       @ ''Update .NET SDK to version 9.0.100.'' @ [CHR 0x0A, CHR 0x0A]
       @ ''---'' @ [CHR 0x0A]
       @ ''updated-dependencies:'' @ [CHR 0x0A]
       @ ''- dependency-name: Microsoft.NET.Sdk'' @ [CHR 0x0A]
       @ ''  dependency-type: direct:production'' @ [CHR 0x0A]
       @ ''  update-type: version-update:semver-major'' @ [CHR 0x0A]
       @ ''...'' @ [CHR 0x0A, CHR 0x0A]"
    by simp
  from generateCommitMessage_classification [OF s, THEN conjunct2, THEN conjunct1,
         THEN spec, THEN spec, THEN spec, THEN spec, THEN spec, THEN spec, THEN mp, OF b,
         of 100 100]
  have "generateCommitMessage ''8.0.100'' ''9.0.100''
     = ''Update .NET SDK'' @ [CHR 0x0A, CHR 0x0A]
       @ ''Update .NET SDK to version 9.0.100.'' @ [CHR 0x0A, CHR 0x0A]
       @ ''---'' @ [CHR 0x0A]
       @ ''updated-dependencies:'' @ [CHR 0x0A]
       @ ''- dependency-name: Microsoft.NET.Sdk'' @ [CHR 0x0A]
       @ ''  dependency-type: direct:production'' @ [CHR 0x0A]
       @ ''  update-type: version-update:semver-major'' @ [CHR 0x0A]
       @ ''...'' @ [CHR 0x0A, CHR 0x0A]"
    unfolding v by simp
  with first show ?thesis by simp
qed

section \<open>The Release Delta Resolver\<close>
































text \<open>
  C1 at a concrete channel. The claim has the scan enumerate the patch values strictly
  between the current and the latest one, which here is 2 alone, and the release 8.0.2 is
  no security release and lists no advisory. The loop of the source starts at the
  current patch, so it also takes the release 8.0.1, the current one: the aggregate flag
  is true and the aggregate list holds the advisory of the current release.
\<close>

theorem getLatestRelease_scans_current_patch:
  "getLatestRelease ordinal ''8.0.101'' currentFlaggedChannel = Inr currentFlaggedResult
   \<and> agg_security currentFlaggedResult
   \<and> map issue_id (agg_securityIssues currentFlaggedResult) = [''CVE-2024-0001'']
   \<and> \<not> info_security (latest currentFlaggedResult)
   \<and> findByRuntime (releases currentFlaggedChannel) ''8.0.2''
     = Some (exampleRelease ''8.0.2'' ''8.0.102'' False None Null)
   \<and> findByRuntime (releases currentFlaggedChannel) ''8.0.1''
     = Some (exampleRelease ''8.0.1'' ''8.0.101'' True (Some [exampleCve ''CVE-2024-0001'']) Null)"
proof -
  have "getLatestRelease ordinal ''8.0.101'' currentFlaggedChannel = Inr currentFlaggedResult"
    by code_simp
  moreover have "agg_security currentFlaggedResult" by code_simp
  moreover have "map issue_id (agg_securityIssues currentFlaggedResult) = [''CVE-2024-0001'']"
    by code_simp
  moreover have "\<not> info_security (latest currentFlaggedResult)" by code_simp
  moreover have "findByRuntime (releases currentFlaggedChannel) ''8.0.2''
     = Some (exampleRelease ''8.0.2'' ''8.0.102'' False None Null)" by code_simp
  moreover have "findByRuntime (releases currentFlaggedChannel) ''8.0.1''
     = Some (exampleRelease ''8.0.1'' ''8.0.101'' True (Some [exampleCve ''CVE-2024-0001'']) Null)"
    by code_simp
  ultimately show ?thesis by simp
qed

section \<open>The Update Orchestrator\<close>

lemma andThen_cases:
  assumes "andThen m f u = (r, u')"
  obtains (failed) err where "m u = (Inl err, u')" "r = Inl err"
    | (continued) a u1 where "m u = (Inr a, u1)" "f a u1 = (r, u')"
  using assms by (auto simp: andThen_def split: prod.splits sum.splits)

lemma trace_emit: "trace (emit ev u) = trace u @ [ev]" "options (emit ev u) = options u"
  by (simp_all add: emit_def)

lemma execGit_effect:
  assumes "execGit e args ig u = (r, u')"
  shows "u' = emit (Git args ig (execProcess e (trace u) args ig)) u"
  using assms by (auto simp: execGit_def Let_def split: execOutcome.splits if_splits)

lemma execGit_ignoring:
  assumes "execGit e args True u = (r, u')"
  shows "branchFound (Git args True (execProcess e (trace u) args True))
         \<longleftrightarrow> take 3 args = [''rev-parse'', ''--verify'', ''--quiet''] \<and> (\<exists>out. r = Inr out \<and> out \<noteq> [])"
  using assms
  by (auto simp: execGit_def Let_def branchFound_def split: execOutcome.splits if_splits)

lemma branchFound_Git:
  "branchFound (Git args ig oc) \<Longrightarrow> take 3 args = [''rev-parse'', ''--verify'', ''--quiet'']"
  by (auto simp: branchFound_def split: execOutcome.splits)

lemma publishes_Git:
  "publishes (Git (c # rest) ig oc) \<longleftrightarrow> c \<in> {''checkout'', ''add'', ''commit'', ''push''}"
  by (simp add: publishes_def)

text \<open>A step that neither finds the branch nor publishes anything.\<close>

lemma execGit_calm:
  assumes "execGit e (c # rest) ig u = (r, u')"
      and "c \<noteq> ''rev-parse'' \<or> take 2 rest \<noteq> [''--verify'', ''--quiet'']"
      and "c \<notin> {''checkout'', ''add'', ''commit'', ''push''}"
  shows "options u' = options u \<and>
         (\<exists>evs. trace u' = trace u @ evs \<and> (\<forall>ev \<in> set evs. \<not> branchFound ev \<and> \<not> publishes ev))"
proof -
  let ?ev = "Git (c # rest) ig (execProcess e (trace u) (c # rest) ig)"
  have u': "u' = emit ?ev u"
    using assms(1) by (rule execGit_effect)
  have "\<not> branchFound ?ev"
    using assms(2) branchFound_Git [of "c # rest"] by (auto simp: numeral_3_eq_3 numeral_2_eq_2)
  moreover have "\<not> publishes ?ev"
    using assms(3) by (simp only: publishes_Git) simp
  ultimately have "\<forall>ev \<in> set [?ev]. \<not> branchFound ev \<and> \<not> publishes ev"
    by simp
  moreover have "trace u' = trace u @ [?ev]" "options u' = options u"
    using u' by (simp_all add: trace_emit)
  ultimately show ?thesis by blast
qed

lemma without_refl: "trace u' = trace u \<Longrightarrow> without bad u u'"
  by (simp add: without_def)

lemma without_trans: "without bad u u1 \<Longrightarrow> without bad u1 u2 \<Longrightarrow> without bad u u2"
  by (auto simp: without_def)

lemma without_emit: "\<not> bad ev \<Longrightarrow> without bad u (emit ev u)"
  by (simp add: without_def trace_emit)

lemma without_weaken: "without foundOrPublishes u u' \<Longrightarrow> without branchFound u u' \<and> without publishes u u'"
  by (auto simp: without_def foundOrPublishes_def list_all_iff)

lemma without_effects:
  "without bad u u' \<Longrightarrow> \<forall>ev \<in> set (effects u u'). \<not> bad ev"
  by (auto simp: without_def effects_def list_all_iff)

lemma execGit_quiet:
  assumes "execGit e (c # rest) ig u = (r, u')"
      and "c \<noteq> ''rev-parse'' \<or> take 2 rest \<noteq> [''--verify'', ''--quiet'']"
      and "c \<notin> {''checkout'', ''add'', ''commit'', ''push''}"
  shows "options u' = options u \<and> without foundOrPublishes u u'"
  using execGit_calm [OF assms]
  by (auto simp: without_def foundOrPublishes_def list_all_iff)

lemma execGit_not_found:
  assumes "execGit e (c # rest) ig u = (r, u')"
      and "c \<noteq> ''rev-parse''"
  shows "options u' = options u \<and> without branchFound u u'"
proof -
  let ?ev = "Git (c # rest) ig (execProcess e (trace u) (c # rest) ig)"
  have u': "u' = emit ?ev u"
    using assms(1) by (rule execGit_effect)
  have "\<not> branchFound ?ev"
    using assms(2) branchFound_Git [of "c # rest"] by (auto simp: numeral_3_eq_3)
  then show ?thesis
    unfolding u' by (simp add: without_emit trace_emit)
qed

lemma writeGlobalJson_quiet:
  assumes "writeGlobalJson e gj v u = (r, u')"
  shows "options u' = options u \<and> without foundOrPublishes u u'"
proof (cases "json_sdk gj")
  case None
  with assms show ?thesis
    by (simp add: writeGlobalJson_def without_refl)
next
  case (Some s)
  let ?ev = "WriteFile (globalJsonPath (options u)) (gj\<lparr>json_sdk := Some (s\<lparr>json_version := Some v\<rparr>)\<rparr>)"
  have "u' = emit ?ev u"
    using assms Some by (auto simp: writeGlobalJson_def Let_def split: option.splits)
  moreover have "\<not> foundOrPublishes ?ev"
    by (simp add: foundOrPublishes_def branchFound_def publishes_def)
  ultimately show ?thesis
    by (simp add: without_emit trace_emit)
qed

lemma configureDefaults_quiet: "without foundOrPublishes u (configureDefaults versions u)"
  by (simp add: configureDefaults_def Let_def without_refl)

lemma execGit_quiet_config:
  "execGit e (''config'' # rest) ig u = (r, u') \<Longrightarrow>
     options u' = options u \<and> without foundOrPublishes u u'"
  by (erule execGit_quiet) simp_all

lemma execGit_quiet_remote:
  "execGit e (''remote'' # rest) ig u = (r, u') \<Longrightarrow>
     options u' = options u \<and> without foundOrPublishes u u'"
  by (erule execGit_quiet) simp_all

lemma execGit_quiet_fetch:
  "execGit e (''fetch'' # rest) ig u = (r, u') \<Longrightarrow>
     options u' = options u \<and> without foundOrPublishes u u'"
  by (erule execGit_quiet) simp_all

lemma execGit_quiet_head:
  "execGit e [''rev-parse'', ''--abbrev-ref'', ''HEAD''] ig u = (r, u') \<Longrightarrow>
     options u' = options u \<and> without foundOrPublishes u u'"
  by (erule execGit_quiet) simp_all

lemma return_effect: "return a u = (r, u') \<Longrightarrow> u' = u \<and> r = Inr a"
  by (auto simp: return_def)

lemma quiet_step:
  "options u1 = options u \<and> without bad u u1 \<Longrightarrow> options u2 = options u1 \<and> without bad u1 u2 \<Longrightarrow>
     options u2 = options u \<and> without bad u u2"
  by (auto intro: without_trans)

lemma configureGit_name:
  assumes "(if userName (options u) \<noteq> []
            then execGit e [''config'', ''user.name'', userName (options u)] False u
            else return [] u) = (x, u1)"
  shows "options u1 = options u \<and> without foundOrPublishes u u1"
proof (cases "userName (options u) \<noteq> []")
  case True
  with assms have "execGit e [''config'', ''user.name'', userName (options u)] False u = (x, u1)"
    by simp
  then show ?thesis by (rule execGit_quiet_config)
next
  case False
  with assms have "return [] u = (x, u1)" by simp
  then show ?thesis by (auto dest: return_effect simp: without_refl)
qed

lemma configureGit_email:
  assumes "(if userEmail (options u) \<noteq> []
            then execGit e [''config'', ''user.email'', userEmail (options u)] False u
            else return [] u) = (x, u1)"
  shows "options u1 = options u \<and> without foundOrPublishes u u1"
proof (cases "userEmail (options u) \<noteq> []")
  case True
  with assms have "execGit e [''config'', ''user.email'', userEmail (options u)] False u = (x, u1)"
    by simp
  then show ?thesis by (rule execGit_quiet_config)
next
  case False
  with assms have "return [] u = (x, u1)" by simp
  then show ?thesis by (auto dest: return_effect simp: without_refl)
qed

lemma configureGit_remote:
  assumes "andThen (execGit e [''remote'', ''set-url'', ''origin'', address] False) (\<lambda>_.
             andThen (execGit e [''fetch'', ''origin''] True) (\<lambda>_. return ())) u = (x, u')"
  shows "options u' = options u \<and> without foundOrPublishes u u'"
  using assms
proof (cases rule: andThen_cases)
  case (failed err)
  from failed(1) show ?thesis by (rule execGit_quiet_remote)
next
  case (continued a ua)
  from continued(1) have 1: "options ua = options u \<and> without foundOrPublishes u ua"
    by (rule execGit_quiet_remote)
  from continued(2) show ?thesis
  proof (cases rule: andThen_cases)
    case (failed err)
    from failed(1) have "options u' = options ua \<and> without foundOrPublishes ua u'"
      by (rule execGit_quiet_fetch)
    with 1 show ?thesis by (rule quiet_step)
  next
    case (continued b ub)
    from continued(1) have "options ub = options ua \<and> without foundOrPublishes ua ub"
      by (rule execGit_quiet_fetch)
    moreover from continued(2) have "u' = ub" by (simp add: return_def)
    ultimately show ?thesis using 1 by (auto intro: without_trans)
  qed
qed

lemma configureGit_repo:
  assumes "(case repo (options u) of
              None \<Rightarrow> return () u
            | Some r \<Rightarrow>
                if r = [] then return () u
                else andThen (execGit e [''remote'', ''set-url'', ''origin'',
                                          serverUrl (options u) @ ''/'' @ r @ ''.git''] False) (\<lambda>_.
                     andThen (execGit e [''fetch'', ''origin''] True) (\<lambda>_. return ())) u) = (x, u')"
  shows "options u' = options u \<and> without foundOrPublishes u u'"
proof (cases "repo (options u)")
  case None
  with assms show ?thesis by (simp add: return_def without_refl)
next
  case (Some r)
  show ?thesis
  proof (cases "r = []")
    case True
    with assms Some show ?thesis by (simp add: return_def without_refl)
  next
    case False
    with assms Some have
      "andThen (execGit e [''remote'', ''set-url'', ''origin'',
                            serverUrl (options u) @ ''/'' @ r @ ''.git''] False) (\<lambda>_.
         andThen (execGit e [''fetch'', ''origin''] True) (\<lambda>_. return ())) u = (x, u')"
      by simp
    then show ?thesis by (rule configureGit_remote)
  qed
qed

lemma configureGit_quiet:
  assumes "configureGit e u = (r, u')"
  shows "options u' = options u \<and> without foundOrPublishes u u'"
  using assms unfolding configureGit_def
proof (cases rule: andThen_cases)
  case (failed err)
  from failed(1) show ?thesis by (rule configureGit_name)
next
  case (continued a u1)
  from continued(1) have first: "options u1 = options u \<and> without foundOrPublishes u u1"
    by (rule configureGit_name)
  from continued(2) show ?thesis
  proof (cases rule: andThen_cases)
    case (failed err)
    from failed(1) have "options u' = options u1 \<and> without foundOrPublishes u1 u'"
      by (rule configureGit_email)
    with first show ?thesis by (rule quiet_step)
  next
    case (continued b u2)
    from continued(1) have second: "options u2 = options u1 \<and> without foundOrPublishes u1 u2"
      by (rule configureGit_email)
    from continued(2) have third: "options u' = options u2 \<and> without foundOrPublishes u2 u'"
      by (rule configureGit_repo)
    from first second have "options u2 = options u \<and> without foundOrPublishes u u2"
      by (rule quiet_step)
    then show ?thesis using third by (rule quiet_step)
  qed
qed

lemma commitAndPush_not_found:
  assumes "commitAndPush e u = (r, u')"
  shows "without branchFound u u'"
  using assms unfolding commitAndPush_def
proof (cases rule: andThen_cases)
  case (failed err)
  from failed(1) show ?thesis using execGit_not_found [of e "''checkout''"] by simp
next
  case (continued a u1)
  from continued(1) have 1: "without branchFound u u1"
    using execGit_not_found [of e "''checkout''"] by simp
  from continued(2) show ?thesis
  proof (cases rule: andThen_cases)
    case (failed err)
    from failed(1) have "without branchFound u1 u'"
      using execGit_not_found [of e "''add''"] by simp
    with 1 show ?thesis by (rule without_trans)
  next
    case (continued b u2)
    from continued(1) have "without branchFound u1 u2"
      using execGit_not_found [of e "''add''"] by simp
    with 1 have 2: "without branchFound u u2" by (rule without_trans)
    from continued(2) show ?thesis
    proof (cases rule: andThen_cases)
      case (failed err)
      from failed(1) have "without branchFound u2 u'"
        using execGit_not_found [of e "''commit''"] by simp
      with 2 show ?thesis by (rule without_trans)
    next
      case (continued c u3)
      from continued(1) have "without branchFound u2 u3"
        using execGit_not_found [of e "''commit''"] by simp
      with 2 have 3: "without branchFound u u3" by (rule without_trans)
      from continued(2) show ?thesis
      proof (cases rule: andThen_cases)
        case (failed err)
        from failed(1) have "without branchFound u3 u'"
          using execGit_not_found [of e "''log''"] by simp
        with 3 show ?thesis by (rule without_trans)
      next
        case (continued d u4)
        from continued(1) have "without branchFound u3 u4"
          using execGit_not_found [of e "''log''"] by simp
        with 3 have 4: "without branchFound u u4" by (rule without_trans)
        show ?thesis
        proof (cases "\<not> dryRun (options u4) \<and> repo (options u4) \<noteq> None \<and> repo (options u4) \<noteq> Some []")
          case True
          with continued(2) have
            "andThen (execGit e [''push'', ''-u'', ''origin'', branch (options u4)] True)
               (\<lambda>_. return ()) u4 = (r, u')"
            by simp
          then have "without branchFound u4 u'"
          proof (cases rule: andThen_cases)
            case (failed err)
            from failed(1) show ?thesis
              using execGit_not_found [of e "''push''"] by simp
          next
            case (continued f u5)
            from continued(1) have "without branchFound u4 u5"
              using execGit_not_found [of e "''push''"] by simp
            moreover from continued(2) have "u' = u5" by (simp add: return_def)
            ultimately show ?thesis by simp
          qed
          with 4 show ?thesis by (rule without_trans)
        next
          case False
          with continued(2) have "return () u4 = (r, u')" by auto
          then have "u' = u4" by (simp add: return_def)
          with 4 show ?thesis by simp
        qed
      qed
    qed
  qed
qed

lemma createPullRequest_not_found:
  assumes "createPullRequest e b update u = (r, u')"
  shows "without branchFound u u'"
proof -
  have nf: "\<not> branchFound (PullsCreate request)" "\<not> branchFound (AddLabels n ls)" for request n ls
    by (simp_all add: branchFound_def)
  from assms show ?thesis
    by (auto simp: createPullRequest_def Let_def nf without_refl without_emit
             intro: without_trans [OF without_emit without_emit]
             split: if_splits sum.splits option.splits)
qed

lemma execGit_check:
  assumes "execGit e (branchExistsArgs b) True u = (r, u')"
  shows "without publishes u u'"
    and "(\<And>out. r = Inr out \<Longrightarrow> out = []) \<Longrightarrow> without branchFound u u'"
proof -
  let ?ev = "Git (branchExistsArgs b) True (execProcess e (trace u) (branchExistsArgs b) True)"
  have u': "u' = emit ?ev u"
    using assms by (rule execGit_effect)
  have "\<not> publishes ?ev"
    by (simp add: branchExistsArgs_def publishes_def)
  then show "without publishes u u'"
    unfolding u' by (rule without_emit)
  assume "\<And>out. r = Inr out \<Longrightarrow> out = []"
  then have "\<not> branchFound ?ev"
    using execGit_ignoring [OF assms] by blast
  then show "without branchFound u u'"
    unfolding u' by (rule without_emit)
qed

lemma quiet_not_found: "options u' = options u \<and> without foundOrPublishes u u' \<Longrightarrow> without branchFound u u'"
  by (simp add: without_weaken)

lemma applySdkUpdate_found:
  assumes "applySdkUpdate e gj versions u = (r, u')"
  shows "without branchFound u u' \<or> (r = Inr None \<and> without publishes u u')"
  using assms unfolding applySdkUpdate_def
proof (cases rule: andThen_cases)
  case (failed err)
  from failed(1) show ?thesis
    by (auto dest!: execGit_quiet_head quiet_not_found)
next
  case (continued baseBranch u1)
  from continued(1) have 1: "without foundOrPublishes u u1"
    by (auto dest!: execGit_quiet_head)
  from continued(2) show ?thesis
  proof (cases rule: andThen_cases)
    case (failed err)
    from failed(1) have "without foundOrPublishes u1 u'"
      by (auto dest!: writeGlobalJson_quiet)
    with 1 have "without foundOrPublishes u u'" by (rule without_trans)
    then show ?thesis by (simp add: without_weaken)
  next
    case (continued a u2)
    from continued(1) have "without foundOrPublishes u1 u2"
      by (auto dest!: writeGlobalJson_quiet)
    with 1 have 2: "without foundOrPublishes u u2" by (rule without_trans)
    from continued(2) show ?thesis
    proof (cases rule: andThen_cases)
      case (failed err)
      then show ?thesis by (simp add: return_def)
    next
      case (continued b u3)
      from continued(1) have "u3 = configureDefaults versions u2"
        by (simp add: return_def)
      then have "without foundOrPublishes u2 u3"
        by (simp add: configureDefaults_quiet)
      with 2 have 3: "without foundOrPublishes u u3" by (rule without_trans)
      from continued(2) show ?thesis
      proof (cases rule: andThen_cases)
        case (failed err)
        from failed(1) have "without foundOrPublishes u3 u'"
          by (auto dest!: configureGit_quiet)
        with 3 have "without foundOrPublishes u u'" by (rule without_trans)
        then show ?thesis by (simp add: without_weaken)
      next
        case (continued c u4)
        from continued(1) have "without foundOrPublishes u3 u4"
          by (auto dest!: configureGit_quiet)
        with 3 have 4: "without foundOrPublishes u u4" by (rule without_trans)
        from continued(2) show ?thesis
        proof (cases rule: andThen_cases)
          case (failed err)
          from failed(1) have "without branchFound u4 u'"
            using execGit_check(2) [of e "branch (options u4)" u4 "Inl err" u'] by simp
          moreover from 4 have "without branchFound u u4" by (simp add: without_weaken)
          ultimately show ?thesis by (blast intro: without_trans)
        next
          case (continued branchExists u5)
          show ?thesis
          proof (cases "branchExists = []")
            case False
            with continued(2) have "r = Inr None" "u' = u5"
              by (simp_all add: return_def)
            moreover from continued(1) have "without publishes u4 u5"
              by (rule execGit_check(1))
            moreover from 4 have "without publishes u u4" by (simp add: without_weaken)
            ultimately show ?thesis by (blast intro: without_trans)
          next
            case True
            from continued(1) True have "without branchFound u4 u5"
              using execGit_check(2) [of e "branch (options u4)" u4 "Inr branchExists" u5] by simp
            moreover from 4 have "without branchFound u u4" by (simp add: without_weaken)
            ultimately have 5: "without branchFound u u5" by (blast intro: without_trans)
            from continued(2) True have
              "andThen (commitAndPush e) (\<lambda>_. return (Some baseBranch)) u5 = (r, u')"
              by simp
            then have "without branchFound u5 u'"
            proof (cases rule: andThen_cases)
              case (failed err)
              from failed(1) show ?thesis by (rule commitAndPush_not_found)
            next
              case (continued d u6)
              from continued(1) have "without branchFound u5 u6"
                by (rule commitAndPush_not_found)
              moreover from continued(2) have "u' = u6" by (simp add: return_def)
              ultimately show ?thesis by simp
            qed
            with 5 show ?thesis by (blast intro: without_trans)
          qed
        qed
      qed
    qed
  qed
qed

lemma readSdkVersion_quiet:
  assumes "readSdkVersion e u = (r, u')"
  shows "without foundOrPublishes u u'"
proof -
  let ?ev = "ReadFile (globalJsonPath (options u))"
  have "u' = emit ?ev u"
    using assms by (auto simp: readSdkVersion_def Let_def split: sum.splits if_splits)
  moreover have "\<not> foundOrPublishes ?ev"
    by (simp add: foundOrPublishes_def branchFound_def publishes_def)
  ultimately show ?thesis by (simp add: without_emit)
qed

lemma resolveChannel_quiet:
  assumes "resolveChannel v u = (r, u')"
  shows "without foundOrPublishes u u'"
  using assms by (auto simp: resolveChannel_def Let_def without_refl split: if_splits)

lemma getDotNetReleaseChannel_quiet:
  assumes "getDotNetReleaseChannel e c u = (r, u')"
  shows "without foundOrPublishes u u'"
proof -
  let ?ev = "HttpGet (''https://raw.githubusercontent.com/dotnet/core/main/release-notes/''
                        @ c @ ''/releases.json'')"
  have "u' = emit ?ev u"
    using assms
    by (auto simp: getDotNetReleaseChannel_def Let_def split: sum.splits if_splits option.splits)
  moreover have "\<not> foundOrPublishes ?ev"
    by (simp add: foundOrPublishes_def branchFound_def publishes_def)
  ultimately show ?thesis by (simp add: without_emit)
qed

lemma tryUpdateSdk_found:
  assumes "tryUpdateSdk key e u = (r, u')"
  shows "without branchFound u u' \<or>
         ((\<exists>res. r = Inr res \<and> \<not> updated res \<and> pullRequestNumber res = 0 \<and>
                 pullRequestUrl res = [] \<and> \<not> result_security res)
          \<and> without publishes u u')"
  using assms unfolding tryUpdateSdk_def
proof (cases rule: andThen_cases)
  case (failed err)
  from failed(1) have "without foundOrPublishes u u'" by (rule readSdkVersion_quiet)
  then show ?thesis by (simp add: without_weaken)
next
  case (continued a u1)
  obtain globalJson sdkVer where a: "a = (globalJson, sdkVer)" by (cases a)
  from continued(1) have 1: "without foundOrPublishes u u1" by (rule readSdkVersion_quiet)
  from continued(2) [unfolded a prod.case] show ?thesis
  proof (cases rule: andThen_cases)
    case (failed err)
    from failed(1) have "without foundOrPublishes u1 u'" by (rule resolveChannel_quiet)
    with 1 have "without foundOrPublishes u u'" by (rule without_trans)
    then show ?thesis by (simp add: without_weaken)
  next
    case (continued b u2)
    from continued(1) have "without foundOrPublishes u1 u2" by (rule resolveChannel_quiet)
    with 1 have 2: "without foundOrPublishes u u2" by (rule without_trans)
    from continued(2) show ?thesis
    proof (cases rule: andThen_cases)
      case (failed err)
      from failed(1) have "without foundOrPublishes u2 u'"
        by (rule getDotNetReleaseChannel_quiet)
      with 2 have "without foundOrPublishes u u'" by (rule without_trans)
      then show ?thesis by (simp add: without_weaken)
    next
      case (continued releaseChannel u3)
      from continued(1) have "without foundOrPublishes u2 u3"
        by (rule getDotNetReleaseChannel_quiet)
      with 2 have "without foundOrPublishes u u3" by (rule without_trans)
      then have 3: "without branchFound u u3" "without publishes u u3"
        by (simp_all add: without_weaken)
      show ?thesis
      proof (cases "getLatestRelease key sdkVer releaseChannel")
        case (Inl err)
        with continued(2) have "u' = u3" by (simp add: throw_def)
        with 3 show ?thesis by simp
      next
        case (Inr update)
        let ?result = "\<lparr>branchName = None, pullRequestNumber = 0, pullRequestUrl = [],
                        updated = False, result_security = False,
                        version = sdkVersion (current update)\<rparr>"
        show ?thesis
        proof (cases "sdkVersion (current update) = sdkVersion (latest update)")
          case True
          with continued(2) Inr have "u' = u3" by (simp add: return_def Let_def)
          with 3 show ?thesis by simp
        next
          case False
          with continued(2) Inr have
            "andThen (applySdkUpdate e globalJson update) (\<lambda>baseBranch.
               (case baseBranch of
                  None \<Rightarrow> return ?result
                | Some b \<Rightarrow>
                    if b = [] then return ?result
                    else andThen (createPullRequest e b update) (\<lambda>pullRequest.
                           return (?result\<lparr>pullRequestNumber := pr_number pullRequest,
                                            pullRequestUrl := pr_url pullRequest,
                                            result_security := agg_security update,
                                            updated := True,
                                            version := sdkVersion (latest update)\<rparr>)))) u3
             = (r, u')"
            by (simp add: Let_def)
          then show ?thesis
          proof (cases rule: andThen_cases)
            case (failed err)
            from applySdkUpdate_found [OF failed(1)] have "without branchFound u3 u'"
              by simp
            with 3(1) show ?thesis by (blast intro: without_trans)
          next
            case (continued baseBranch u4)
            from applySdkUpdate_found [OF continued(1)]
            have 4: "without branchFound u3 u4 \<or> (baseBranch = None \<and> without publishes u3 u4)"
              by simp
            show ?thesis
            proof (cases baseBranch)
              case None
              with continued(2) have r: "r = Inr ?result" "u' = u4"
                by (simp_all add: return_def)
              from 4 show ?thesis
              proof
                assume "without branchFound u3 u4"
                with 3(1) r show ?thesis by (blast intro: without_trans)
              next
                assume "baseBranch = None \<and> without publishes u3 u4"
                with 3(2) have "without publishes u u4" by (blast intro: without_trans)
                with r show ?thesis by simp
              qed
            next
              case (Some b)
              with 4 have "without branchFound u3 u4" by simp
              with 3(1) have 5: "without branchFound u u4" by (blast intro: without_trans)
              show ?thesis
              proof (cases "b = []")
                case True
                with continued(2) Some have "u' = u4" by (simp add: return_def)
                with 5 show ?thesis by simp
              next
                case False
                with continued(2) Some have
                  "andThen (createPullRequest e b update) (\<lambda>pullRequest.
                     return (?result\<lparr>pullRequestNumber := pr_number pullRequest,
                                      pullRequestUrl := pr_url pullRequest,
                                      result_security := agg_security update,
                                      updated := True,
                                      version := sdkVersion (latest update)\<rparr>)) u4 = (r, u')"
                  by simp
                then have "without branchFound u4 u'"
                proof (cases rule: andThen_cases)
                  case (failed err)
                  from failed(1) show ?thesis by (rule createPullRequest_not_found)
                next
                  case (continued pullRequest u5)
                  from continued(1) have "without branchFound u4 u5"
                    by (rule createPullRequest_not_found)
                  moreover from continued(2) have "u' = u5" by (simp add: return_def)
                  ultimately show ?thesis by simp
                qed
                with 5 show ?thesis by (blast intro: without_trans)
              qed
            qed
          qed
        qed
      qed
    qed
  qed
qed

text \<open>
  C6. In a run of \<open>tryUpdateSdk\<close> in which the branch-existence check finds the remote
  branch (the check is only reached when the current SDK version differs from the latest
  one), the run ends without an error and reports no update (\<open>updated\<close> is false, and no
  pull request number or address is reported), and none of its effects is a checkout, a
  staging, a commit, a push or the creation of a pull request.
\<close>

theorem tryUpdateSdk_branch_exists:
  assumes "tryUpdateSdk key e u = (r, u')"
      and "\<exists>ev \<in> set (effects u u'). branchFound ev"
  shows "(\<exists>res. r = Inr res \<and> updated res = False \<and> pullRequestNumber res = 0 \<and>
                pullRequestUrl res = [])
         \<and> (\<forall>ev \<in> set (effects u u'). \<not> publishes ev)"
proof -
  from assms(2) have "\<not> without branchFound u u'"
    using without_effects [of branchFound u u'] by blast
  with tryUpdateSdk_found [OF assms(1)] show ?thesis
    using without_effects [of publishes u u'] by blast
qed

theorem tryUpdateSdk_branch_exists_witness:
  "fst (tryUpdateSdk ordinal (exampleEnv ''8.0.101'' ''0123abc'') exampleUpdater)
     = Inr \<lparr>branchName = None, pullRequestNumber = 0, pullRequestUrl = [], updated = False,
            result_security = False, version = ''8.0.101''\<rparr>
   \<and> list_ex branchFound
        (effects exampleUpdater
           (snd (tryUpdateSdk ordinal (exampleEnv ''8.0.101'' ''0123abc'') exampleUpdater)))
   \<and> \<not> list_ex publishes
        (effects exampleUpdater
           (snd (tryUpdateSdk ordinal (exampleEnv ''8.0.101'' ''0123abc'') exampleUpdater)))"
proof -
  let ?run = "tryUpdateSdk ordinal (exampleEnv ''8.0.101'' ''0123abc'') exampleUpdater"
  have r: "?run = (fst ?run, snd ?run)"
    by simp
  have f: "list_ex branchFound (effects exampleUpdater (snd ?run))"
    by code_simp
  then have h: "\<exists>ev \<in> set (effects exampleUpdater (snd ?run)). branchFound ev"
    by (simp add: list_ex_iff)
  have v: "fst ?run = Inr \<lparr>branchName = None, pullRequestNumber = 0, pullRequestUrl = [],
                          updated = False, result_security = False, version = ''8.0.101''\<rparr>"
    by code_simp
  from tryUpdateSdk_branch_exists [OF r h]
  have "\<forall>ev \<in> set (effects exampleUpdater (snd ?run)). \<not> publishes ev"
    by blast
  then have "\<not> list_ex publishes (effects exampleUpdater (snd ?run))"
    by (simp add: list_ex_iff)
  with f v show ?thesis by simp
qed

text \<open>
  C7. In a run of \<open>tryUpdateSdk\<close> that reads the manifest, resolves the channel, fetches
  the feed and resolves the current and the latest release, and in which the current SDK
  version equals the latest one, the run ends without an error with \<open>updated\<close> false and
  with the current SDK version as its version; its only effects are the reading of the
  manifest and the fetch of the feed, so the manifest is not written, no branch is
  created and no pull request is opened.
\<close>

theorem tryUpdateSdk_up_to_date:
  assumes "readSdkVersion e u = (Inr (globalJson, sdkVer), u1)"
      and "resolveChannel sdkVer u1 = (Inr (), u2)"
      and "getDotNetReleaseChannel e (channel (options u2)) u2 = (Inr releaseChannel, u3)"
      and "getLatestRelease key sdkVer releaseChannel = Inr update"
      and "sdkVersion (current update) = sdkVersion (latest update)"
  shows "tryUpdateSdk key e u
         = (Inr \<lparr>branchName = None, pullRequestNumber = 0, pullRequestUrl = [],
                 updated = False, result_security = False,
                 version = sdkVersion (current update)\<rparr>, u3)
       \<and> effects u u3
         = [ReadFile (globalJsonPath (options u)),
            HttpGet (''https://raw.githubusercontent.com/dotnet/core/main/release-notes/''
                     @ channel (options u2) @ ''/releases.json'')]"
proof -
  have run: "tryUpdateSdk key e u
         = (Inr \<lparr>branchName = None, pullRequestNumber = 0, pullRequestUrl = [],
                 updated = False, result_security = False,
                 version = sdkVersion (current update)\<rparr>, u3)"
    using assms by (simp add: tryUpdateSdk_def andThen_def return_def Let_def)
  have 1: "trace u1 = trace u @ [ReadFile (globalJsonPath (options u))]"
    using assms(1)
    by (auto simp: readSdkVersion_def Let_def trace_emit split: sum.splits if_splits)
  have 2: "trace u2 = trace u1"
    using assms(2) by (auto simp: resolveChannel_def Let_def split: if_splits)
  have 3: "trace u3 = trace u2 @
             [HttpGet (''https://raw.githubusercontent.com/dotnet/core/main/release-notes/''
                       @ channel (options u2) @ ''/releases.json'')]"
    using assms(3)
    by (auto simp: getDotNetReleaseChannel_def Let_def trace_emit
             split: sum.splits if_splits option.splits)
  from 1 2 3 have "effects u u3
         = [ReadFile (globalJsonPath (options u)),
            HttpGet (''https://raw.githubusercontent.com/dotnet/core/main/release-notes/''
                     @ channel (options u2) @ ''/releases.json'')]"
    by (simp add: effects_def)
  with run show ?thesis by simp
qed

theorem tryUpdateSdk_up_to_date_witness:
  "tryUpdateSdk ordinal (exampleEnv ''8.0.104'' []) exampleUpdater
     = (Inr \<lparr>branchName = None, pullRequestNumber = 0, pullRequestUrl = [],
             updated = False, result_security = False, version = ''8.0.104''\<rparr>, afterFetch)
   \<and> effects exampleUpdater afterFetch
     = [ReadFile ''global.json'',
        HttpGet ''https://raw.githubusercontent.com/dotnet/core/main/release-notes/8.0/releases.json'']"
proof -
  have 1: "readSdkVersion (exampleEnv ''8.0.104'' []) exampleUpdater
           = (Inr (exampleManifest ''8.0.104'', ''8.0.104''), afterRead)"
    by code_simp
  have 2: "resolveChannel ''8.0.104'' afterRead = (Inr (), afterChannel)"
    by code_simp
  have 3: "getDotNetReleaseChannel (exampleEnv ''8.0.104'' []) (channel (options afterChannel))
             afterChannel = (Inr gapChannel, afterFetch)"
    by code_simp
  have 4: "getLatestRelease ordinal ''8.0.104'' gapChannel = Inr upToDateVersions"
    by code_simp
  have 5: "sdkVersion (current upToDateVersions) = sdkVersion (latest upToDateVersions)"
    by code_simp
  have 6: "sdkVersion (current upToDateVersions) = ''8.0.104''"
    by code_simp
  have 7: "globalJsonPath (options exampleUpdater) = ''global.json''"
    by code_simp
  have 8: "channel (options afterChannel) = ''8.0''"
    by code_simp
  from tryUpdateSdk_up_to_date [OF 1 2 3 4 5] show ?thesis
    unfolding 6 7 8 by simp
qed

text \<open>The result of \<open>tryUpdateSdk\<close> never has a branch name.\<close>

lemma tryUpdateSdk_branchName_unset:
  assumes "tryUpdateSdk key e u = (Inr res, u')"
  shows "branchName res = None"
  using assms
  by (auto simp: tryUpdateSdk_def andThen_def return_def throw_def Let_def
           split: prod.splits sum.splits option.splits if_splits)

text \<open>
  C9 at a concrete run. An update from 8.0.101 to 8.0.104 is applied on the branch
  \<^verbatim>\<open>update-dotnet-sdk-8.0.104\<close> and a pull request is opened, yet the value that
  \<^verbatim>\<open>run\<close> hands to the output \<^verbatim>\<open>branch-name\<close> is \<^verbatim>\<open>undefined\<close>: no result of
  \<open>tryUpdateSdk\<close> has a branch name.
\<close>

theorem run_reports_no_branch_name:
  "run ordinal (exampleEnv ''8.0.101'' []) exampleOptions
     = Inr [(''branch-name'', Undefined),
            (''pull-request-number'', Num 42),
            (''pull-request-html-url'', Str ''https://example.test/pull/42''),
            (''sdk-updated'', Bool True),
            (''sdk-version'', Str ''8.0.104''),
            (''security'', Bool True)]
   \<and> branch (options (snd (tryUpdateSdk ordinal (exampleEnv ''8.0.101'' []) exampleUpdater)))
     = ''update-dotnet-sdk-8.0.104''"
proof -
  have "run ordinal (exampleEnv ''8.0.101'' []) exampleOptions
     = Inr [(''branch-name'', Undefined),
            (''pull-request-number'', Num 42),
            (''pull-request-html-url'', Str ''https://example.test/pull/42''),
            (''sdk-updated'', Bool True),
            (''sdk-version'', Str ''8.0.104''),
            (''security'', Bool True)]"
    by code_simp
  moreover have
    "branch (options (snd (tryUpdateSdk ordinal (exampleEnv ''8.0.101'' []) exampleUpdater)))
     = ''update-dotnet-sdk-8.0.104''"
    by code_simp
  ultimately show ?thesis by simp
qed

end
